theory Spec2Isabelle
  imports Complex_Main
begin

section \<open>JavaScript numbers\<close>

text \<open>
  The page computes with JavaScript numbers, the values of IEEE 754 binary64. A number
  is modelled as \<open>NaN\<close>, one of the two infinities, or a finite value carried as the
  real that it denotes. The two zeros are one value here: the page compares, adds,
  multiplies and takes \<open>Math.max\<close> and \<open>Math.min\<close>, which give the same number for
  either zero, and the body of a request writes both as \<open>0\<close>.
\<close>

datatype jsnum = NaN | NInf | Fin real | PInf

text \<open>
  Rounding to binary64. The result of an operation is the exact result rounded to the
  nearest value with a significand of 53 bits, a tie going to the even significand.
  \<open>binade a\<close> is the exponent \<open>e\<close> with \<open>2 ^ e \<le> a < 2 ^ (e + 1)\<close>, found by
  bisection between \<open>-1022\<close>, the exponent of the subnormal values, and 1025; the unit
  in the last place is then \<open>2 ^ (e - 52)\<close>. A result of \<open>2 ^ 1024\<close> or more is an
  infinity.
\<close>

definition round_half_even :: "real \<Rightarrow> int" where
  "round_half_even x =
     (let f = \<lfloor>x\<rfloor>; d = x - of_int f
      in if d < 1 / 2 then f else if 1 / 2 < d then f + 1 else if even f then f else f + 1)"

fun climb :: "real \<Rightarrow> int list \<Rightarrow> int \<Rightarrow> int" where
  "climb a [] e = e"
| "climb a (d # ds) e = climb a ds (if 2 powi (e + d) \<le> a then e + d else e)"

definition binade :: "real \<Rightarrow> int" where
  "binade a = climb a [1024, 512, 256, 128, 64, 32, 16, 8, 4, 2, 1] (- 1022)"

definition round_to :: "int \<Rightarrow> real \<Rightarrow> jsnum" where
  "round_to e x =
     (let u = 2 powi (e - 52);
          y = of_int (round_half_even (\<bar>x\<bar> / u)) * u
      in if 2 powi 1024 \<le> y then (if 0 < x then PInf else NInf)
         else Fin (if 0 < x then y else - y))"

definition round64 :: "real \<Rightarrow> jsnum" where
  "round64 x = round_to (binade \<bar>x\<bar>) x"

text \<open>The steps of a bisection: each is the half of the one before, down to 1.\<close>

fun halving :: "int list \<Rightarrow> bool" where
  "halving [] = False"
| "halving [d] = (d = 1)"
| "halving (d # d' # ds) = (d = 2 * d' \<and> halving (d' # ds))"

fun isNaN :: "jsnum \<Rightarrow> bool" where
  "isNaN NaN = True"
| "isNaN _ = False"

fun jneg :: "jsnum \<Rightarrow> jsnum" where
  "jneg NaN = NaN"
| "jneg NInf = PInf"
| "jneg PInf = NInf"
| "jneg (Fin a) = Fin (- a)"

text \<open>\<open>a + b\<close>: opposite infinities add up to \<open>NaN\<close>; a finite sum is rounded.\<close>

fun jadd :: "jsnum \<Rightarrow> jsnum \<Rightarrow> jsnum" where
  "jadd NaN _ = NaN"
| "jadd _ NaN = NaN"
| "jadd PInf NInf = NaN"
| "jadd NInf PInf = NaN"
| "jadd PInf _ = PInf"
| "jadd _ PInf = PInf"
| "jadd NInf _ = NInf"
| "jadd _ NInf = NInf"
| "jadd (Fin a) (Fin b) = round64 (a + b)"

definition jsub :: "jsnum \<Rightarrow> jsnum \<Rightarrow> jsnum" where
  "jsub a b = jadd a (jneg b)"

text \<open>
  \<open>a * b\<close>: an infinity times zero is \<open>NaN\<close>, otherwise the signs multiply; a finite
  product is rounded.
\<close>

definition inf_times :: "bool \<Rightarrow> real \<Rightarrow> jsnum" where
  "inf_times positive a =
     (if a = 0 then NaN else if (0 < a) = positive then PInf else NInf)"

fun jmul :: "jsnum \<Rightarrow> jsnum \<Rightarrow> jsnum" where
  "jmul NaN _ = NaN"
| "jmul _ NaN = NaN"
| "jmul (Fin a) (Fin b) = round64 (a * b)"
| "jmul (Fin a) PInf = inf_times True a"
| "jmul (Fin a) NInf = inf_times False a"
| "jmul PInf (Fin b) = inf_times True b"
| "jmul NInf (Fin b) = inf_times False b"
| "jmul PInf PInf = PInf"
| "jmul NInf NInf = PInf"
| "jmul PInf NInf = NInf"
| "jmul NInf PInf = NInf"

text \<open>\<open>a < b\<close>, which is false as soon as an operand is \<open>NaN\<close>.\<close>

fun jlt :: "jsnum \<Rightarrow> jsnum \<Rightarrow> bool" where
  "jlt NaN _ = False"
| "jlt _ NaN = False"
| "jlt _ NInf = False"
| "jlt NInf _ = True"
| "jlt PInf _ = False"
| "jlt _ PInf = True"
| "jlt (Fin a) (Fin b) = (a < b)"

text \<open>\<open>Math.max\<close> and \<open>Math.min\<close> of two arguments return \<open>NaN\<close> when one of them is.\<close>

definition Math_max :: "jsnum \<Rightarrow> jsnum \<Rightarrow> jsnum" where
  "Math_max a b = (if isNaN a \<or> isNaN b then NaN else if jlt a b then b else a)"

definition Math_min :: "jsnum \<Rightarrow> jsnum \<Rightarrow> jsnum" where
  "Math_min a b = (if isNaN a \<or> isNaN b then NaN else if jlt b a then b else a)"

section \<open>JavaScript strings\<close>

text \<open>
  A string is a list of characters. The model covers ASCII text: the white space of
  \<open>trim\<close>, of the pattern \<open>\s\<close> and of \<open>Number\<close> is tab, line feed, vertical tab,
  form feed, carriage return and space, and the case mappings change the letters
  \<open>a\<close> to \<open>z\<close> and \<open>A\<close> to \<open>Z\<close> only.
\<close>

definition is_ws :: "char \<Rightarrow> bool" where
  "is_ws c \<longleftrightarrow> c \<in> set [CHR 0x09, CHR 0x0A, CHR 0x0B, CHR 0x0C, CHR 0x0D, CHR 0x20]"

definition trim :: "string \<Rightarrow> string" where
  "trim s = rev (dropWhile is_ws (rev (dropWhile is_ws s)))"

definition upper_char :: "char \<Rightarrow> char" where
  "upper_char c =
     (case map_of (zip ''abcdefghijklmnopqrstuvwxyz'' ''ABCDEFGHIJKLMNOPQRSTUVWXYZ'') c of
        None \<Rightarrow> c | Some u \<Rightarrow> u)"

definition lower_char :: "char \<Rightarrow> char" where
  "lower_char c =
     (case map_of (zip ''ABCDEFGHIJKLMNOPQRSTUVWXYZ'' ''abcdefghijklmnopqrstuvwxyz'') c of
        None \<Rightarrow> c | Some l \<Rightarrow> l)"

definition toUpperCase :: "string \<Rightarrow> string" where
  "toUpperCase s = map upper_char s"

definition toLowerCase :: "string \<Rightarrow> string" where
  "toLowerCase s = map lower_char s"

text \<open>
  \<open>s.split(sep)\<close> for a separator of one character: the pieces between the occurrences
  of the separator, so one piece more than there are occurrences, and never an empty
  array (\<open>"".split(":")\<close> is \<open>[""]\<close>).
\<close>

fun split_on :: "char \<Rightarrow> string \<Rightarrow> string list" where
  "split_on sep [] = [[]]"
| "split_on sep (c # cs) =
     (if c = sep then [] # split_on sep cs
      else (case split_on sep cs of [] \<Rightarrow> [[c]] | p # ps \<Rightarrow> (c # p) # ps))"

text \<open>
  \<open>s.split(/\s+/)\<close>: every maximal run of white space separates two pieces, so a string
  that starts or ends with white space has an empty first or last piece.
\<close>

function split_ws :: "string \<Rightarrow> string list" where
  "split_ws [] = [[]]"
| "split_ws (c # cs) =
     (if is_ws c then [] # split_ws (dropWhile is_ws cs)
      else (case split_ws cs of [] \<Rightarrow> [[c]] | p # ps \<Rightarrow> (c # p) # ps))"
  by pat_completeness auto
termination
  by (relation "measure length") (auto simp: less_Suc_eq_le length_dropWhile_le)

text \<open>\<open>parts[i]\<close>, which is \<open>undefined\<close> (here \<open>None\<close>) outside the array.\<close>

definition at_index :: "'a list \<Rightarrow> nat \<Rightarrow> 'a option" where
  "at_index xs i = (if i < length xs then Some (xs ! i) else None)"

text \<open>\<open>parts.findIndex(p)\<close>, with \<open>None\<close> for the result \<open>-1\<close>.\<close>

fun findIndex :: "('a \<Rightarrow> bool) \<Rightarrow> 'a list \<Rightarrow> nat option" where
  "findIndex p [] = None"
| "findIndex p (x # xs) =
     (if p x then Some 0 else map_option Suc (findIndex p xs))"

section \<open>The conversion \<open>Number(string)\<close>\<close>

text \<open>
  \<open>Number\<close> removes the white space around the text. What is left is read as a number
  when it is empty (the value is \<open>0\<close>), a binary, octal or hexadecimal integer with
  its prefix, or a decimal literal: an optional sign, then \<open>Infinity\<close> or digits with an
  optional fraction and an optional exponent. Any other text gives \<open>NaN\<close>. The value
  of the literal is rounded to binary64, as the engines do for a literal of any length.
\<close>

definition digit_value :: "char \<Rightarrow> nat option" where
  "digit_value c =
     map_of
       [(CHR ''0'', 0), (CHR ''1'', 1), (CHR ''2'', 2), (CHR ''3'', 3), (CHR ''4'', 4),
        (CHR ''5'', 5), (CHR ''6'', 6), (CHR ''7'', 7), (CHR ''8'', 8), (CHR ''9'', 9),
        (CHR ''a'', 10), (CHR ''b'', 11), (CHR ''c'', 12), (CHR ''d'', 13), (CHR ''e'', 14),
        (CHR ''f'', 15), (CHR ''A'', 10), (CHR ''B'', 11), (CHR ''C'', 12), (CHR ''D'', 13),
        (CHR ''E'', 14), (CHR ''F'', 15)] c"

definition is_digit :: "char \<Rightarrow> bool" where
  "is_digit c \<longleftrightarrow> c \<in> set ''0123456789''"

fun digits_from :: "nat \<Rightarrow> nat \<Rightarrow> string \<Rightarrow> nat option" where
  "digits_from radix acc [] = Some acc"
| "digits_from radix acc (c # cs) =
     (case digit_value c of
        None \<Rightarrow> None
      | Some d \<Rightarrow> if d < radix then digits_from radix (acc * radix + d) cs else None)"

text \<open>The value of a non-empty run of digits of the radix; \<open>None\<close> for anything else.\<close>

definition digits :: "nat \<Rightarrow> string \<Rightarrow> nat option" where
  "digits radix ds = (if ds = [] then None else digits_from radix 0 ds)"

definition nondecimal :: "string \<Rightarrow> nat option" where
  "nondecimal t =
     (case t of
        c0 # c1 # ds \<Rightarrow>
          if c0 \<noteq> CHR ''0'' then None
          else if c1 = CHR ''x'' \<or> c1 = CHR ''X'' then digits 16 ds
          else if c1 = CHR ''o'' \<or> c1 = CHR ''O'' then digits 8 ds
          else if c1 = CHR ''b'' \<or> c1 = CHR ''B'' then digits 2 ds
          else None
      | _ \<Rightarrow> None)"

text \<open>The exponent part: nothing, or \<open>e\<close> or \<open>E\<close>, an optional sign and digits.\<close>

definition exponent :: "string \<Rightarrow> int option" where
  "exponent r =
     (case r of
        [] \<Rightarrow> Some 0
      | c # ds \<Rightarrow>
          if c = CHR ''e'' \<or> c = CHR ''E'' then
            (case ds of
               [] \<Rightarrow> None
             | s # ds' \<Rightarrow>
                 if s = CHR ''+'' then map_option int (digits 10 ds')
                 else if s = CHR ''-'' then map_option (\<lambda>n. - int n) (digits 10 ds')
                 else map_option int (digits 10 ds))
          else None)"

definition scale10 :: "nat \<Rightarrow> int \<Rightarrow> real" where
  "scale10 m k = (if 0 \<le> k then real m * 10 ^ nat k else real m / 10 ^ nat (- k))"

definition unsigned_decimal :: "string \<Rightarrow> jsnum" where
  "unsigned_decimal t =
     (if t = ''Infinity'' then PInf
      else
        let ip = takeWhile is_digit t;
            r1 = dropWhile is_digit t;
            fp = (case r1 of [] \<Rightarrow> [] | c # r \<Rightarrow> if c = CHR ''.'' then takeWhile is_digit r else []);
            r2 = (case r1 of [] \<Rightarrow> [] | c # r \<Rightarrow> if c = CHR ''.'' then dropWhile is_digit r else r1)
        in if ip = [] \<and> fp = [] then NaN
           else (case exponent r2 of
                   None \<Rightarrow> NaN
                 | Some e \<Rightarrow>
                     (case digits 10 (ip @ fp) of
                        None \<Rightarrow> NaN
                      | Some m \<Rightarrow> round64 (scale10 m (e - int (length fp))))))"

definition str_decimal :: "string \<Rightarrow> jsnum" where
  "str_decimal t =
     (case t of
        [] \<Rightarrow> NaN
      | c # r \<Rightarrow>
          if c = CHR ''+'' then unsigned_decimal r
          else if c = CHR ''-'' then jneg (unsigned_decimal r)
          else unsigned_decimal t)"

definition Number :: "string \<Rightarrow> jsnum" where
  "Number s =
     (let t = trim s in
      if t = [] then Fin 0
      else (case nondecimal t of Some n \<Rightarrow> round64 (real n) | None \<Rightarrow> str_decimal t))"

section \<open>The conversions of the page\<close>

text \<open>\<open>computeSecondsRemaining(quarter, clock)\<close>.\<close>

definition computeSecondsRemaining :: "jsnum \<Rightarrow> string \<Rightarrow> jsnum" where
  "computeSecondsRemaining quarter clock =
     (let parts = split_on CHR '':'' clock in
      if length parts \<noteq> 2 then Fin 0
      else
        let mm = Number (parts ! 0);
            ss = Number (parts ! 1)
        in if isNaN mm \<or> isNaN ss then Fin 0
           else
             let remainingThisQuarter = jadd (jmul mm (Fin 60)) ss;
                 remainingFullQuarters =
                   jmul (jmul (Math_max (Fin 0) (jsub (Fin 4) quarter)) (Fin 15)) (Fin 60)
             in jadd remainingThisQuarter remainingFullQuarters)"

text \<open>
  \<open>parseTeamsFromSlug(slug)\<close>. The source reads each token with \<open>parts[i]?.toUpperCase() ?? team\<close>,
  which keeps the placeholder when the index is outside the array; no step of the
  function can throw.
\<close>

definition upper_or :: "string option \<Rightarrow> string \<Rightarrow> string" where
  "upper_or tok fallback = (case tok of None \<Rightarrow> fallback | Some t \<Rightarrow> toUpperCase t)"

definition parseTeamsFromSlug :: "string \<Rightarrow> string \<times> string" where
  "parseTeamsFromSlug slug =
     (let parts = split_on CHR ''-'' slug;
          team1 = ''TEAM1'';
          team2 = ''TEAM2'';
          nflIdx = findIndex (\<lambda>p. toLowerCase p = ''nfl'') parts
      in (case nflIdx of
            Some i \<Rightarrow>
              if i + 3 \<le> length parts then
                (upper_or (at_index parts (i + 1)) team1, upper_or (at_index parts (i + 2)) team2)
              else if 3 \<le> length parts then
                (upper_or (at_index parts 1) team1, upper_or (at_index parts 2) team2)
              else (team1, team2)
          | None \<Rightarrow>
              if 3 \<le> length parts then
                (upper_or (at_index parts 1) team1, upper_or (at_index parts 2) team2)
              else (team1, team2)))"

text \<open>
  \<open>parseTeamsFromSlug\<close> once more, with the values and the failures of JavaScript in
  the open. A value is a string or \<open>undefined\<close>. An index outside the array gives
  \<open>undefined\<close>; a method call on \<open>undefined\<close> throws a \<open>TypeError\<close>, the optional call
  \<open>?.\<close> gives \<open>undefined\<close> instead, and \<open>??\<close> replaces \<open>undefined\<close> by its right side.
  \<open>findIndex\<close> gives \<open>-1\<close> when the test holds nowhere, and fails when the test does.
\<close>

datatype jsval = Undefined | Str string

datatype js_error = TypeError

definition call_toLowerCase :: "jsval \<Rightarrow> js_error + jsval" where
  "call_toLowerCase v = (case v of Undefined \<Rightarrow> Inl TypeError | Str t \<Rightarrow> Inr (Str (toLowerCase t)))"

definition call_toUpperCase :: "jsval \<Rightarrow> js_error + jsval" where
  "call_toUpperCase v = (case v of Undefined \<Rightarrow> Inl TypeError | Str t \<Rightarrow> Inr (Str (toUpperCase t)))"

definition optional_toUpperCase :: "jsval \<Rightarrow> js_error + jsval" where
  "optional_toUpperCase v = (case v of Undefined \<Rightarrow> Inr Undefined | Str t \<Rightarrow> call_toUpperCase v)"

definition nullish :: "jsval \<Rightarrow> jsval \<Rightarrow> jsval" where
  "nullish v d = (case v of Undefined \<Rightarrow> d | Str t \<Rightarrow> v)"

definition element :: "jsval list \<Rightarrow> int \<Rightarrow> jsval" where
  "element xs i = (if 0 \<le> i \<and> i < int (length xs) then xs ! nat i else Undefined)"

fun findIndex_from :: "(jsval \<Rightarrow> js_error + bool) \<Rightarrow> jsval list \<Rightarrow> int \<Rightarrow> js_error + int" where
  "findIndex_from p [] i = Inr (- 1)"
| "findIndex_from p (x # xs) i =
     (case p x of
        Inl e \<Rightarrow> Inl e
      | Inr b \<Rightarrow> if b then Inr i else findIndex_from p xs (i + 1))"

text \<open>The test \<open>(p) => p.toLowerCase() === "nfl"\<close>.\<close>

definition is_nfl :: "jsval \<Rightarrow> js_error + bool" where
  "is_nfl p = (case call_toLowerCase p of Inl e \<Rightarrow> Inl e | Inr l \<Rightarrow> Inr (l = Str ''nfl''))"

text \<open>The expression \<open>parts[i]?.toUpperCase() ?? team\<close>.\<close>

definition pick :: "jsval list \<Rightarrow> int \<Rightarrow> jsval \<Rightarrow> js_error + jsval" where
  "pick parts i team =
     (case optional_toUpperCase (element parts i) of
        Inl e \<Rightarrow> Inl e
      | Inr v \<Rightarrow> Inr (nullish v team))"

definition parseTeamsFromSlug_js :: "string \<Rightarrow> js_error + jsval \<times> jsval" where
  "parseTeamsFromSlug_js slug =
     (let parts = map Str (split_on CHR ''-'' slug);
          team1 = Str ''TEAM1'';
          team2 = Str ''TEAM2''
      in (case findIndex_from is_nfl parts 0 of
            Inl e \<Rightarrow> Inl e
          | Inr nflIdx \<Rightarrow>
              if nflIdx \<noteq> - 1 \<and> nflIdx + 3 \<le> int (length parts) then
                (case pick parts (nflIdx + 1) team1 of
                   Inl e \<Rightarrow> Inl e
                 | Inr t1 \<Rightarrow>
                     (case pick parts (nflIdx + 2) team2 of
                        Inl e \<Rightarrow> Inl e
                      | Inr t2 \<Rightarrow> Inr (t1, t2)))
              else if 3 \<le> int (length parts) then
                (case pick parts 1 team1 of
                   Inl e \<Rightarrow> Inl e
                 | Inr t1 \<Rightarrow>
                     (case pick parts 2 team2 of
                        Inl e \<Rightarrow> Inl e
                      | Inr t2 \<Rightarrow> Inr (t1, t2)))
              else Inr (team1, team2)))"

text \<open>\<open>parseYardlineLabel(label, homeTeam, awayTeam)\<close>, with \<open>None\<close> for \<open>null\<close>.\<close>

definition parseYardlineLabel :: "string \<Rightarrow> string \<Rightarrow> string \<Rightarrow> jsnum option" where
  "parseYardlineLabel label homeTeam awayTeam =
     (let trimmed = trim label in
      if trimmed = [] then None
      else
        let parts = split_ws trimmed in
        if length parts \<noteq> 2 then None
        else
          let team = toUpperCase (parts ! 0);
              y = Number (parts ! 1)
          in if isNaN y then None
             else if team = toUpperCase homeTeam then
               Some (Math_min (Fin 100) (Math_max (Fin 0) y))
             else if team = toUpperCase awayTeam then
               Some (Math_min (Fin 100) (Math_max (Fin 0) (jsub (Fin 100) y)))
             else None)"

section \<open>The form and its submission\<close>

datatype Side = home_yes | home_no

text \<open>A numeric input of the form holds a number or the empty string.\<close>

datatype numfield = Blank | Entered jsnum

text \<open>The values that the page puts into the request body.\<close>

datatype json = JBool bool | JNum jsnum | JStr string | JObj "(string \<times> json) list"

fun field :: "string \<Rightarrow> json \<Rightarrow> json option" where
  "field k (JObj kvs) = map_of kvs k"
| "field k _ = None"

text \<open>The response of the scoring service, as \<open>res.json()\<close> decodes it.\<close>

record EVResponse =
  p_model :: jsnum
  fair_price :: jsnum
  market_price :: jsnum
  fee_cost :: jsnum
  edge_raw :: jsnum
  edge_after_fees :: jsnum
  ev_per_contract :: jsnum

text \<open>
  The state of the component \<open>EVPage\<close>, one field for each \<open>useState\<close>; \<open>team1\<close> and
  \<open>team2\<close> are the pair derived from the slug.
\<close>

record form =
  slug :: string
  side :: Side
  quarter :: numfield
  clock :: string
  homeScore :: numfield
  awayScore :: numfield
  homeHasBall :: bool
  yardlineLabel :: string
  down :: numfield
  ydstogo :: numfield
  feeCost :: numfield
  loading :: bool
  error :: "string option"
  result :: "EVResponse option"
  team1 :: string
  team2 :: string
  homeTeam :: string
  awayTeam :: string
  yardlineError :: "string option"

text \<open>The initial values of the state variables.\<close>

definition initial :: form where
  "initial =
     \<lparr>slug = ''nfl-buf-hou-2025-11-20'', side = home_yes,
      quarter = Entered (Fin 1), clock = ''15:00'',
      homeScore = Entered (Fin 0), awayScore = Entered (Fin 0), homeHasBall = True,
      yardlineLabel = ''HOU 25'',
      down = Entered (Fin 1), ydstogo = Entered (Fin 10),
      feeCost = Entered (round64 (1 / 100)),
      loading = False, error = None, result = None,
      team1 = ''TEAM1'', team2 = ''TEAM2'',
      homeTeam = ''TEAM1'', awayTeam = ''TEAM2'',
      yardlineError = None\<rparr>"

text \<open>
  The effect that runs when the slug changes: it derives the pair of codes, selects the
  first as home and the second as away, and resets the yardline label.
\<close>

definition slugEffect :: "form \<Rightarrow> form" where
  "slugEffect st =
     (let parsed = parseTeamsFromSlug (slug st)
      in st\<lparr>team1 := fst parsed, team2 := snd parsed,
             homeTeam := fst parsed, awayTeam := snd parsed,
             yardlineLabel := fst parsed @ '' 25''\<rparr>)"

text \<open>
  The network. A request is what \<open>fetch\<close> is called with; its body is the payload that
  \<open>JSON.stringify\<close> serialises. \<open>fetch\<close> rejects with a message or resolves to a response;
  reading the text or the JSON of a response can fail with a message as well (\<open>Inl\<close>).
\<close>

record request =
  url :: string
  http_method :: string
  headers :: "(string \<times> string) list"
  body :: json

record response =
  status :: nat
  statusText :: string
  body_text :: "string + string"
  body_json :: "string + EVResponse"

datatype fetched = Rejected string | Resolved response

definition ok :: "response \<Rightarrow> bool" where
  "ok res \<longleftrightarrow> 200 \<le> status res \<and> status res \<le> 299"

text \<open>The decimal text of a status code, as the template literal prints it.\<close>

fun show_nat :: "nat \<Rightarrow> string" where
  "show_nat n =
     (if n < 10 then [''0123456789'' ! n]
      else show_nat (n div 10) @ [''0123456789'' ! (n mod 10)])"

declare show_nat.simps [simp del]

definition parseOrDefault :: "numfield \<Rightarrow> jsnum \<Rightarrow> jsnum" where
  "parseOrDefault v fallback =
     (case v of Blank \<Rightarrow> fallback | Entered n \<Rightarrow> if \<not> isNaN n then n else fallback)"

definition yardline_message :: "string \<Rightarrow> string \<Rightarrow> string" where
  "yardline_message home away =
     ''Yardline must look like '' @ [CHR 0x22] @ home @ '' 36'' @ [CHR 0x22] @ '' or '' @
     [CHR 0x22] @ away @ '' 12'' @ [CHR 0x22] @ '' and use one of the two team codes.''"

definition side_text :: "Side \<Rightarrow> string" where
  "side_text sd = (case sd of home_yes \<Rightarrow> ''home_yes'' | home_no \<Rightarrow> ''home_no'')"

text \<open>The payload object built by \<open>handleSubmit\<close> once the yardline label is parsed.\<close>

definition payload :: "form \<Rightarrow> jsnum \<Rightarrow> json" where
  "payload st ylParsed =
     (let q = Math_min (Fin 4) (Math_max (Fin 1) (parseOrDefault (quarter st) (Fin 1)));
          hs = parseOrDefault (homeScore st) (Fin 0);
          as = parseOrDefault (awayScore st) (Fin 0);
          d = Math_min (Fin 4) (Math_max (Fin 1) (parseOrDefault (down st) (Fin 1)));
          ytg = Math_max (Fin 1) (parseOrDefault (ydstogo st) (Fin 10));
          fee = Math_max (Fin 0) (parseOrDefault (feeCost st) (Fin 0));
          seconds_remaining = computeSecondsRemaining q (clock st);
          score_diff_home = jsub hs as
      in JObj
           [(''slug'', JStr (slug st)),
            (''side'', JStr (side_text (side st))),
            (''fee_cost'', JNum fee),
            (''state'',
             JObj
               [(''quarter'', JNum q),
                (''seconds_remaining'', JNum seconds_remaining),
                (''home_score'', JNum hs),
                (''away_score'', JNum as),
                (''score_diff_home'', JNum score_diff_home),
                (''home_has_ball'', JNum (if homeHasBall st then Fin 1 else Fin 0)),
                (''yardline_100'', JNum ylParsed),
                (''down'', JNum d),
                (''ydstogo'', JNum ytg)])])"

definition post :: "json \<Rightarrow> request" where
  "post p =
     \<lparr>url = ''http://127.0.0.1:8000/ev/game'', http_method = ''POST'',
      headers = [(''Content-Type'', ''application/json'')], body = p\<rparr>"

text \<open>
  The body of the \<open>try\<close> block. \<open>st\<close> is the state that the handler was created with:
  every read of a state variable sees it. \<open>s\<close> is the state that the setters build up.
  The result is the message of the error thrown, if any, the state, and the requests
  that were passed to \<open>fetch\<close>.
\<close>

definition submit_try ::
  "form \<Rightarrow> form \<Rightarrow> (request \<Rightarrow> fetched) \<Rightarrow> string option \<times> form \<times> request list"
where
  "submit_try st s net =
     (case parseYardlineLabel (yardlineLabel st) (homeTeam st) (awayTeam st) of
        None \<Rightarrow>
          (Some ''Invalid yardline format'',
           s\<lparr>yardlineError := Some (yardline_message (homeTeam st) (awayTeam st))\<rparr>, [])
      | Some ylParsed \<Rightarrow>
          let req = post (payload st ylParsed) in
          (case net req of
             Rejected m \<Rightarrow> (Some m, s, [req])
           | Resolved res \<Rightarrow>
               if \<not> ok res then
                 (case body_text res of
                    Inl m \<Rightarrow> (Some m, s, [req])
                  | Inr txt \<Rightarrow>
                      (Some (''Backend error '' @ show_nat (status res) @ '': '' @
                             (if txt \<noteq> [] then txt else statusText res)),
                       s, [req]))
               else
                 (case body_json res of
                    Inl m \<Rightarrow> (Some m, s, [req])
                  | Inr data \<Rightarrow> (None, s\<lparr>result := Some data\<rparr>, [req]))))"

text \<open>\<open>!v\<close> for a value that is a string or \<open>null\<close>.\<close>

definition falsy :: "string option \<Rightarrow> bool" where
  "falsy v \<longleftrightarrow> (case v of None \<Rightarrow> True | Some t \<Rightarrow> t = [])"

text \<open>
  The handler \<open>handleSubmit\<close>: the four setters, the \<open>try\<close> block, the \<open>catch\<close>
  handler, which reads \<open>yardlineError\<close> as the handler was created with it, and the
  \<open>finally\<close> block. The call of \<open>console.error\<close> is left out. The result is the state
  after the handler and the requests it passed to \<open>fetch\<close>.
\<close>

definition handleSubmit :: "form \<Rightarrow> (request \<Rightarrow> fetched) \<Rightarrow> form \<times> request list" where
  "handleSubmit st net =
     (let s0 = st\<lparr>error := None, result := None, yardlineError := None, loading := True\<rparr>
      in (case submit_try st s0 net of
            (thrown, s1, reqs) \<Rightarrow>
              let s2 = (case thrown of
                          None \<Rightarrow> s1
                        | Some message \<Rightarrow>
                            if falsy (yardlineError st) then
                              s1\<lparr>error := Some (if message \<noteq> [] then message else ''Unknown error'')\<rparr>
                            else s1)
              in (s2\<lparr>loading := False\<rparr>, reqs)))"

text \<open>
  The submission of the form. The handler is the \<open>onSubmit\<close> of a form that has no
  \<open>noValidate\<close> attribute, so the browser checks the inputs first and calls the handler
  only when they pass. The submit button is disabled while a request is loading. A
  number input that holds a finite number below its \<open>min\<close> or above its \<open>max\<close> refuses
  the submission; an empty input passes, since no input is required, and a value that is
  no finite number is no number for the input, so that the bounds do not apply to it. The
  inputs declare: quarter and down from 1 to 4, yards to go at least 1, fee at least 0,
  and no bound for the two scores. The other checks of the browser, on the step of a
  number input and on text that is no number, read the text of the input, which the state
  does not keep: they are the parameter \<open>other_checks\<close>. A refused submission sends
  nothing and leaves the state as it is.
\<close>

definition in_range :: "real option \<Rightarrow> real option \<Rightarrow> numfield \<Rightarrow> bool" where
  "in_range lo hi v =
     (case v of
        Entered (Fin x) \<Rightarrow>
          (case lo of None \<Rightarrow> True | Some l \<Rightarrow> l \<le> x) \<and>
          (case hi of None \<Rightarrow> True | Some h \<Rightarrow> x \<le> h)
      | _ \<Rightarrow> True)"

definition inputs_in_range :: "form \<Rightarrow> bool" where
  "inputs_in_range st \<longleftrightarrow>
     in_range (Some 1) (Some 4) (quarter st) \<and>
     in_range None None (awayScore st) \<and>
     in_range None None (homeScore st) \<and>
     in_range (Some 1) (Some 4) (down st) \<and>
     in_range (Some 1) None (ydstogo st) \<and>
     in_range (Some 0) None (feeCost st)"

definition submit ::
  "(form \<Rightarrow> bool) \<Rightarrow> form \<Rightarrow> (request \<Rightarrow> fetched) \<Rightarrow> form \<times> request list"
where
  "submit other_checks st net =
     (if \<not> loading st \<and> inputs_in_range st \<and> other_checks st then handleSubmit st net
      else (st, []))"

text \<open>A field of the \<open>state\<close> object in the body of a request.\<close>

definition state_field :: "string \<Rightarrow> request \<Rightarrow> json option" where
  "state_field k req = (case field ''state'' (body req) of None \<Rightarrow> None | Some obj \<Rightarrow> field k obj)"

text \<open>Whether a value of the payload is a number.\<close>

definition is_num :: "json \<Rightarrow> bool" where
  "is_num j = (case j of JNum n \<Rightarrow> True | _ \<Rightarrow> False)"

section \<open>The wording of the specification\<close>

text \<open>\<open>a <= b\<close> on numbers, which is false as soon as an operand is \<open>NaN\<close>.\<close>

definition jle :: "jsnum \<Rightarrow> jsnum \<Rightarrow> bool" where
  "jle a b \<longleftrightarrow> \<not> isNaN a \<and> \<not> isNaN b \<and> \<not> jlt b a"

text \<open>
  A value clamped to the range from \<open>lo\<close> to \<open>hi\<close>: a value below the range becomes
  \<open>lo\<close>, a value above it becomes \<open>hi\<close>, and a value inside is kept.
\<close>

definition clamped :: "real \<Rightarrow> real \<Rightarrow> jsnum \<Rightarrow> jsnum" where
  "clamped lo hi v = (if jlt v (Fin lo) then Fin lo else if jlt (Fin hi) v then Fin hi else v)"

text \<open>A value clamped to be at least \<open>lo\<close>.\<close>

definition at_least :: "real \<Rightarrow> jsnum \<Rightarrow> jsnum" where
  "at_least lo v = (if jlt v (Fin lo) then Fin lo else v)"

text \<open>
  The specification calls a clock malformed when it does not consist of exactly two
  colon-separated numeric parts. A numeric part is read here as a text that holds
  something other than white space and that \<open>Number\<close> reads as a number.
\<close>

definition spec_numeric_part :: "string \<Rightarrow> bool" where
  "spec_numeric_part p \<longleftrightarrow> trim p \<noteq> [] \<and> \<not> isNaN (Number p)"

definition spec_malformed_clock :: "string \<Rightarrow> bool" where
  "spec_malformed_clock clk =
     (case split_on CHR '':'' clk of
        [a, b] \<Rightarrow> \<not> spec_numeric_part a \<or> \<not> spec_numeric_part b
      | _ \<Rightarrow> True)"

section \<open>Facts about rounding\<close>

lemma round_half_even_of_int: "round_half_even (of_int k) = k"
  by (simp add: round_half_even_def)

lemma round_half_even_le:
  assumes "x \<le> of_int M"
  shows "round_half_even x \<le> M"
proof -
  have f: "\<lfloor>x\<rfloor> \<le> M" using assms by (simp add: floor_le_iff)
  have "\<lfloor>x\<rfloor> + 1 \<le> M" if "0 < x - of_int \<lfloor>x\<rfloor>"
  proof -
    have "x \<noteq> of_int M" using that by auto
    with assms have "x < of_int M" by simp
    then have "\<lfloor>x\<rfloor> < M" by (simp add: floor_less_iff)
    then show ?thesis by simp
  qed
  with f show ?thesis
    by (auto simp: round_half_even_def Let_def)
qed

lemma round_half_even_nonneg: "0 \<le> x \<Longrightarrow> 0 \<le> round_half_even x"
  by (auto simp: round_half_even_def Let_def intro: add_nonneg_nonneg)

lemma pow2_le_D: "(2::real) powi e \<le> 2 powi f \<Longrightarrow> e \<le> f"
  using power_int_strict_increasing [of f e "2::real"] by (cases "e \<le> f") auto

lemma climb_spec:
  "halving ds \<Longrightarrow> 2 powi e \<le> a \<Longrightarrow> a < 2 powi (e + 2 * hd ds) \<Longrightarrow>
   2 powi (climb a ds e) \<le> a \<and> a < 2 powi (climb a ds e + 1)"
proof (induction ds arbitrary: e rule: halving.induct)
  case 1
  then show ?case by simp
next
  case (2 d)
  then show ?case by (auto simp: not_le add.commute)
next
  case (3 d d' ds)
  let ?e = "if 2 powi (e + d) \<le> a then e + d else e"
  from "3.prems" have d: "d = 2 * d'" and h: "halving (d' # ds)" by simp_all
  have lo: "2 powi ?e \<le> a" using "3.prems" by simp
  have hi: "a < 2 powi (?e + 2 * hd (d' # ds))"
    using "3.prems" d by (auto simp: not_le algebra_simps)
  from "3.IH" [OF h lo hi] show ?case by simp
qed

lemma climb_low:
  "a < 2 powi e \<Longrightarrow> \<forall>d\<in>set ds. 0 \<le> d \<Longrightarrow> climb a ds e = e"
proof (induction ds)
  case Nil
  then show ?case by simp
next
  case (Cons d ds)
  then have "(2::real) powi e \<le> 2 powi (e + d)"
    by (intro power_int_increasing) auto
  with Cons.prems have "\<not> 2 powi (e + d) \<le> a" by simp
  with Cons show ?case by simp
qed

lemma binade_normal:
  assumes "2 powi (- 1022) \<le> a" and "a < 2 powi 1024"
  shows "2 powi (binade a) \<le> a \<and> a < 2 powi (binade a + 1)"
proof -
  have "(2::real) powi 1024 \<le> 2 powi (- 1022 + 2 * 1024)"
    by (intro power_int_increasing) auto
  with assms(2) have "a < 2 powi (- 1022 + 2 * hd [1024, 512, 256, 128, 64, 32, 16, 8, 4, 2, 1::int])"
    by simp
  moreover have "halving [1024, 512, 256, 128, 64, 32, 16, 8, 4, 2, 1]" by simp
  ultimately show ?thesis
    unfolding binade_def using assms(1) by (intro climb_spec)
qed

lemma binade_subnormal: "a < 2 powi (- 1022) \<Longrightarrow> binade a = - 1022"
  unfolding binade_def by (intro climb_low) auto

text \<open>The binade of a value that is no more than \<open>2 ^ 52\<close> is at most 52.\<close>

lemma binade_le_52:
  assumes "a \<le> 2 powi 52"
  shows "binade a \<le> 52"
proof (cases "a < 2 powi (- 1022)")
  case True
  then show ?thesis by (simp add: binade_subnormal)
next
  case False
  have "(2::real) powi 52 < 2 powi 1024" by (intro power_int_strict_increasing) auto
  with assms have "a < 2 powi 1024" by simp
  with False have "2 powi (binade a) \<le> a" using binade_normal [of a] by simp
  with assms have "(2::real) powi (binade a) \<le> 2 powi 52" by simp
  then show ?thesis by (rule pow2_le_D)
qed

text \<open>A whole number of units of the last place: rounding to a bound that is one.\<close>

lemma round_to_le:
  assumes "0 \<le> x" and "x \<le> of_int K" and "K \<le> 2 ^ 52" and "e \<le> 52"
  shows "\<exists>y. round_to e x = Fin y \<and> 0 \<le> y \<and> y \<le> of_int K"
proof -
  define u :: real where "u = 2 powi (e - 52)"
  define n where "n = round_half_even (\<bar>x\<bar> / u)"
  have u: "0 < u" by (simp add: u_def)
  have inv: "1 / u = of_int (2 ^ nat (52 - e))"
    using assms(4) by (simp add: u_def power_int_def field_simps)
  have "\<bar>x\<bar> / u \<le> of_int K / u" using assms(1,2) u by (simp add: divide_right_mono)
  also have "of_int K / u = of_int K * (1 / u)" by simp
  also have "\<dots> = of_int (K * 2 ^ nat (52 - e))" by (simp only: inv of_int_mult)
  finally have "n \<le> K * 2 ^ nat (52 - e)" unfolding n_def by (rule round_half_even_le)
  then have "of_int n \<le> (of_int (K * 2 ^ nat (52 - e)) :: real)" by (simp only: of_int_le_iff)
  then have "of_int n * u \<le> of_int (K * 2 ^ nat (52 - e)) * u"
    using u by (simp add: mult_right_mono)
  also have "of_int (K * 2 ^ nat (52 - e)) * u = of_int K * ((1 / u) * u)"
    by (simp only: inv of_int_mult mult.assoc)
  also have "\<dots> = of_int K" using u by simp
  finally have le: "of_int n * u \<le> of_int K" .
  have "0 \<le> n" unfolding n_def using assms(1) u by (intro round_half_even_nonneg) simp
  then have ge: "0 \<le> of_int n * u" using u by simp
  have "(of_int K :: real) \<le> 2 ^ 52" using assms(3) by (metis of_int_le_iff of_int_numeral of_int_power)
  also have "\<dots> < 2 powi 1024" by simp
  finally have "of_int n * u < 2 powi 1024" using le by simp
  then have "round_to e x = Fin (if 0 < x then of_int n * u else - (of_int n * u))"
    by (simp add: round_to_def Let_def u_def n_def)
  moreover have "of_int n * u = 0" if "\<not> 0 < x"
  proof -
    from that assms(1) have "x = 0" by simp
    then show ?thesis by (simp add: n_def round_half_even_def)
  qed
  ultimately show ?thesis using le ge by auto
qed

lemma round64_le:
  assumes "0 \<le> x" and "x \<le> of_int K" and "K \<le> 2 ^ 52"
  shows "\<exists>y. round64 x = Fin y \<and> 0 \<le> y \<and> y \<le> of_int K"
proof -
  have "(of_int K :: real) \<le> 2 ^ 52" using assms(3) by (metis of_int_le_iff of_int_numeral of_int_power)
  with assms have "\<bar>x\<bar> \<le> 2 powi 52" by simp
  then have "binade \<bar>x\<bar> \<le> 52" by (rule binade_le_52)
  with assms show ?thesis unfolding round64_def by (intro round_to_le)
qed

text \<open>A value that is a whole number of units of the last place is not changed.\<close>

lemma round_to_exact:
  assumes "\<bar>x\<bar> = of_int m * 2 powi (e - 52)" and "\<bar>x\<bar> < 2 powi 1024"
  shows "round_to e x = Fin x"
proof -
  have "\<bar>x\<bar> / 2 powi (e - 52) = of_int m" using assms(1) by simp
  then have "of_int (round_half_even (\<bar>x\<bar> / 2 powi (e - 52))) * 2 powi (e - 52) = \<bar>x\<bar>"
    using assms(1) by (simp add: round_half_even_of_int)
  with assms(2) show ?thesis
    by (auto simp: round_to_def Let_def)
qed

lemma round64_of_int:
  assumes "\<bar>k\<bar> \<le> 2 ^ 52"
  shows "round64 (of_int k) = Fin (of_int k)"
proof -
  have b: "\<bar>of_int k :: real\<bar> \<le> 2 powi 52"
    using assms by (metis of_int_abs of_int_le_iff of_int_numeral of_int_power power_int_numeral)
  then have e: "binade \<bar>of_int k :: real\<bar> \<le> 52" by (rule binade_le_52)
  define e where "e = binade \<bar>of_int k :: real\<bar>"
  have "1 / (2::real) powi (e - 52) = of_int (2 ^ nat (52 - e))"
    using e by (simp add: e_def power_int_def field_simps)
  then have "\<bar>of_int k :: real\<bar> = of_int (\<bar>k\<bar> * 2 ^ nat (52 - e)) * 2 powi (e - 52)"
    by (simp add: field_simps)
  moreover have "\<bar>of_int k :: real\<bar> < 2 powi 1024" using b by simp
  ultimately show ?thesis unfolding round64_def e_def [symmetric] by (rule round_to_exact)
qed

lemma round64_numeral:
  "numeral k \<le> (4503599627370496::int) \<Longrightarrow> round64 (numeral k) = Fin (numeral k)"
  "numeral k \<le> (4503599627370496::int) \<Longrightarrow> round64 (- numeral k) = Fin (- numeral k)"
  "round64 0 = Fin 0" "round64 1 = Fin 1"
  using round64_of_int [of "numeral k"] round64_of_int [of "- numeral k"]
    round64_of_int [of 0] round64_of_int [of 1]
  by simp_all

lemma round64_not_NaN: "round64 x \<noteq> NaN"
  by (simp add: round64_def round_to_def Let_def)

lemma isNaN_round64: "\<not> isNaN (round64 x)"
  by (cases "round64 x") (simp_all add: round64_not_NaN)

text \<open>Whole numbers of moderate size are computed with exactly.\<close>

lemma jadd_int:
  "\<bar>a + b\<bar> \<le> 2 ^ 52 \<Longrightarrow> jadd (Fin (of_int a)) (Fin (of_int b)) = Fin (of_int (a + b))"
  using round64_of_int [of "a + b"] by simp


lemma jmul_int:
  "\<bar>a * b\<bar> \<le> 2 ^ 52 \<Longrightarrow> jmul (Fin (of_int a)) (Fin (of_int b)) = Fin (of_int (a * b))"
  using round64_of_int [of "a * b"] by simp


section \<open>Basic facts\<close>

lemmas Number_defs = Number_def trim_def is_ws_def nondecimal_def str_decimal_def
  unsigned_decimal_def is_digit_def exponent_def digits_def digit_value_def scale10_def
  round64_numeral

lemmas r64 = round64_def binade_def round_to_def round_half_even_def

lemmas string_defs = toUpperCase_def toLowerCase_def upper_char_def lower_char_def

lemma clamp_min_max:
  "lo \<le> hi \<Longrightarrow> Math_min (Fin hi) (Math_max (Fin lo) v) = clamped lo hi v"
  by (cases v) (auto simp: Math_min_def Math_max_def clamped_def)

lemma at_least_max: "Math_max (Fin lo) v = at_least lo v"
  by (cases v) (auto simp: Math_max_def at_least_def)

lemma clamp_min_at_least:
  "lo \<le> hi \<Longrightarrow> Math_min (Fin hi) (at_least lo v) = clamped lo hi v"
  using clamp_min_max [of lo hi v] by (simp add: at_least_max)

lemma clamped_range:
  "lo \<le> hi \<Longrightarrow> \<not> isNaN v \<Longrightarrow> jle (Fin lo) (clamped lo hi v) \<and> jle (clamped lo hi v) (Fin hi)"
  by (cases v) (auto simp: clamped_def jle_def)

lemma at_least_range: "\<not> isNaN v \<Longrightarrow> jle (Fin lo) (at_least lo v)"
  by (cases v) (auto simp: at_least_def jle_def)

lemma jsub_not_NaN: "\<not> isNaN v \<Longrightarrow> \<not> isNaN (jsub (Fin a) v)"
  by (cases v) (auto simp: jsub_def isNaN_round64)

lemma parseOrDefault_not_NaN: "\<not> isNaN d \<Longrightarrow> \<not> isNaN (parseOrDefault v d)"
  by (cases v) (auto simp: parseOrDefault_def)

text \<open>\<open>findIndex\<close> returns the first index at which the test holds.\<close>

lemma findIndex_first:
  "i < length xs \<Longrightarrow> p (xs ! i) \<Longrightarrow> (\<forall>j<i. \<not> p (xs ! j)) \<Longrightarrow> findIndex p xs = Some i"
proof (induction xs arbitrary: i)
  case Nil
  then show ?case by simp
next
  case (Cons x xs)
  show ?case
  proof (cases i)
    case 0
    with Cons.prems show ?thesis by simp
  next
    case (Suc k)
    with Cons.prems have "\<not> p x" by auto
    moreover from Suc Cons.prems have "findIndex p xs = Some k"
      by (intro Cons.IH) auto
    ultimately show ?thesis using Suc by simp
  qed
qed

lemma findIndex_none: "(\<forall>x\<in>set xs. \<not> p x) \<Longrightarrow> findIndex p xs = None"
  by (induction xs) auto

lemma findIndex_less: "findIndex p xs = Some k \<Longrightarrow> k < length xs"
  by (induction xs arbitrary: k) (auto split: if_splits)

section \<open>The yardline label\<close>

lemma parseYardlineLabel_eq:
  "parseYardlineLabel lbl home away =
     (case split_ws (trim lbl) of
        [team, yards] \<Rightarrow>
          if isNaN (Number yards) then None
          else if toUpperCase team = toUpperCase home then
            Some (clamped 0 100 (Number yards))
          else if toUpperCase team = toUpperCase away then
            Some (clamped 0 100 (jsub (Fin 100) (Number yards)))
          else None
      | _ \<Rightarrow> None)"
proof (cases "trim lbl = []")
  case True
  then show ?thesis by (simp add: parseYardlineLabel_def)
next
  case False
  show ?thesis
  proof (cases "split_ws (trim lbl)")
    case Nil
    with False show ?thesis by (simp add: parseYardlineLabel_def)
  next
    case (Cons team r)
    show ?thesis
    proof (cases r)
      case Nil
      with Cons False show ?thesis by (simp add: parseYardlineLabel_def)
    next
      case (Cons yards r')
      with \<open>split_ws (trim lbl) = team # r\<close> False show ?thesis
        by (cases r') (simp_all add: parseYardlineLabel_def Let_def clamp_min_max)
    qed
  qed
qed

text \<open>
  Claim C1. The label is trimmed and split at white space. When this gives exactly a team
  part and a part that \<open>Number\<close> reads as a number \<open>y\<close>: if the team part is the home
  code, ignoring case, the result is \<open>y\<close> clamped to the range 0 to 100; otherwise, if it
  is the away code, the result is \<open>100 - y\<close> clamped to that range; otherwise the
  conversion fails. It fails as well for every other label. Every result lies between 0
  and 100.
\<close>

theorem parseYardlineLabel_cases:
  "parseYardlineLabel lbl home away =
     (case split_ws (trim lbl) of
        [team, yards] \<Rightarrow>
          if isNaN (Number yards) then None
          else if toUpperCase team = toUpperCase home then
            Some (clamped 0 100 (Number yards))
          else if toUpperCase team = toUpperCase away then
            Some (clamped 0 100 (jsub (Fin 100) (Number yards)))
          else None
      | _ \<Rightarrow> None) \<and>
   (\<forall>v. parseYardlineLabel lbl home away = Some v \<longrightarrow> jle (Fin 0) v \<and> jle v (Fin 100))"
proof
  show "parseYardlineLabel lbl home away =
     (case split_ws (trim lbl) of
        [team, yards] \<Rightarrow>
          if isNaN (Number yards) then None
          else if toUpperCase team = toUpperCase home then
            Some (clamped 0 100 (Number yards))
          else if toUpperCase team = toUpperCase away then
            Some (clamped 0 100 (jsub (Fin 100) (Number yards)))
          else None
      | _ \<Rightarrow> None)"
    by (rule parseYardlineLabel_eq)
  show "\<forall>v. parseYardlineLabel lbl home away = Some v \<longrightarrow> jle (Fin 0) v \<and> jle v (Fin 100)"
    unfolding parseYardlineLabel_eq
    by (auto split: list.splits if_splits simp: clamped_range jsub_not_NaN)
qed

text \<open>
  The examples of the specification, with home \<open>HOU\<close> and away \<open>BUF\<close>: \<open>HOU 36\<close> gives
  36, \<open>BUF 12\<close> gives 88, and \<open>NYJ 10\<close> fails.
\<close>

theorem parseYardlineLabel_cases_witness:
  "parseYardlineLabel ''HOU 36'' ''HOU'' ''BUF'' = Some (Fin 36) \<and>
   parseYardlineLabel ''BUF 12'' ''HOU'' ''BUF'' = Some (Fin 88) \<and>
   parseYardlineLabel ''NYJ 10'' ''HOU'' ''BUF'' = None \<and>
   jle (Fin 0) (Fin 36) \<and> jle (Fin 36) (Fin 100)"
proof -
  have s: "split_ws (trim ''HOU 36'') = [''HOU'', ''36'']"
    "split_ws (trim ''BUF 12'') = [''BUF'', ''12'']"
    "split_ws (trim ''NYJ 10'') = [''NYJ'', ''10'']"
    by (simp_all add: trim_def is_ws_def)
  have n: "Number ''36'' = Fin 36" "Number ''12'' = Fin 12" "Number ''10'' = Fin 10"
    by (simp_all add: Number_defs)
  have 1: "parseYardlineLabel ''HOU 36'' ''HOU'' ''BUF'' = Some (Fin 36)"
    using parseYardlineLabel_cases [of "''HOU 36''" "''HOU''" "''BUF''"]
    by (simp add: s n string_defs clamped_def)
  have 2: "parseYardlineLabel ''BUF 12'' ''HOU'' ''BUF'' = Some (Fin 88)"
    using parseYardlineLabel_cases [of "''BUF 12''" "''HOU''" "''BUF''"]
    by (simp add: s n string_defs clamped_def jsub_def round64_numeral)
  have 3: "parseYardlineLabel ''NYJ 10'' ''HOU'' ''BUF'' = None"
    using parseYardlineLabel_cases [of "''NYJ 10''" "''HOU''" "''BUF''"]
    by (simp add: s n string_defs clamped_def jsub_def round64_numeral)
  from 1 2 3 parseYardlineLabel_cases [of "''HOU 36''" "''HOU''" "''BUF''"]
  show ?thesis by simp
qed

section \<open>The clock\<close>

lemma computeSecondsRemaining_two_parts:
  assumes "split_on CHR '':'' clk = [mins, secs]"
    and "\<not> isNaN (Number mins)" and "\<not> isNaN (Number secs)"
  shows "computeSecondsRemaining q clk =
    jadd (jadd (jmul (Number mins) (Fin 60)) (Number secs))
         (jmul (jmul (Math_max (Fin 0) (jsub (Fin 4) q)) (Fin 15)) (Fin 60))"
  using assms by (simp add: computeSecondsRemaining_def)

lemma computeSecondsRemaining_rejected:
  assumes "\<forall>a b. split_on CHR '':'' clk = [a, b] \<longrightarrow> isNaN (Number a) \<or> isNaN (Number b)"
  shows "computeSecondsRemaining q clk = Fin 0"
proof (cases "split_on CHR '':'' clk")
  case Nil
  then show ?thesis by (simp add: computeSecondsRemaining_def)
next
  case (Cons a r)
  note outer = Cons
  show ?thesis
  proof (cases r)
    case Nil
    with outer show ?thesis by (simp add: computeSecondsRemaining_def)
  next
    case (Cons b r')
    note inner = Cons
    show ?thesis
    proof (cases r')
      case Nil
      with outer inner assms have "isNaN (Number a) \<or> isNaN (Number b)" by simp
      with outer inner Nil show ?thesis by (auto simp: computeSecondsRemaining_def)
    next
      case (Cons c r'')
      with outer inner show ?thesis by (simp add: computeSecondsRemaining_def)
    qed
  qed
qed





text \<open>
  Claim C4, as amended. For every quarter number and every clock that does not split at
  the colon into exactly two parts, or one of whose two parts \<open>Number\<close> reads as \<open>NaN\<close>,
  \<open>computeSecondsRemaining\<close> returns 0. A part that is empty or holds only white space
  is read as the number 0: it does not make the clock malformed.
\<close>

theorem computeSecondsRemaining_malformed:
  "((\<forall>a b. split_on CHR '':'' clk = [a, b] \<longrightarrow> isNaN (Number a) \<or> isNaN (Number b)) \<longrightarrow>
      computeSecondsRemaining q clk = Fin 0) \<and>
   ((\<forall>c\<in>set part. is_ws c) \<longrightarrow> Number part = Fin 0)"
proof -
  have "Number part = Fin 0" if "\<forall>c\<in>set part. is_ws c"
  proof -
    from that have "trim part = []" by (auto simp: trim_def dest: set_dropWhileD)
    then show ?thesis by (simp add: Number_def)
  qed
  then show ?thesis by (simp add: computeSecondsRemaining_rejected)
qed

theorem computeSecondsRemaining_malformed_witness:
  "computeSecondsRemaining (Fin 1) ''15:xx'' = Fin 0 \<and>
   computeSecondsRemaining (Fin 1) ''1500'' = Fin 0 \<and>
   computeSecondsRemaining (Fin 1) ''0:15:00'' = Fin 0 \<and>
   is_ws CHR '' '' \<and> Number ''  '' = Fin 0"
proof -
  have n: "Number ''xx'' = NaN" by (simp add: Number_defs)
  have w: "\<forall>c\<in>set ''  ''. is_ws c" by (simp add: is_ws_def)
  have 1: "computeSecondsRemaining (Fin 1) ''15:xx'' = Fin 0"
    using computeSecondsRemaining_malformed [of "''15:xx''" "Fin 1"] by (simp add: n)
  have 2: "computeSecondsRemaining (Fin 1) ''1500'' = Fin 0"
    using computeSecondsRemaining_malformed [of "''1500''" "Fin 1"] by simp
  have 3: "computeSecondsRemaining (Fin 1) ''0:15:00'' = Fin 0"
    using computeSecondsRemaining_malformed [of "''0:15:00''" "Fin 1"] by simp
  have 4: "Number ''  '' = Fin 0"
    using computeSecondsRemaining_malformed [where part = "''  ''"] w by blast
  have 5: "is_ws CHR '' ''" by (simp add: is_ws_def)
  from 1 2 3 4 5 show ?thesis by blast
qed

text \<open>
  Claim C4 as it is stated fails: the clock \<open>15:\<close> has an empty second part, which is
  not a numeric part, and in quarter 1 the result is 3600, not 0.
\<close>

theorem computeSecondsRemaining_malformed_counterexample:
  "split_on CHR '':'' ''15:'' = [''15'', ''''] \<and>
   \<not> spec_numeric_part '''' \<and>
   spec_malformed_clock ''15:'' \<and>
   computeSecondsRemaining (Fin 1) ''15:'' = Fin 3600 \<and>
   Fin 3600 \<noteq> Fin 0"
proof -
  have s: "split_on CHR '':'' ''15:'' = [''15'', '''']" by simp
  have n: "Number ''15'' = Fin 15" "Number '''' = Fin 0" by (simp_all add: Number_defs)
  have e: "\<not> spec_numeric_part ''''" by (simp add: spec_numeric_part_def trim_def)
  have m: "spec_malformed_clock ''15:''" by (simp add: spec_malformed_clock_def e)
  have c: "computeSecondsRemaining (Fin 1) ''15:'' = Fin 3600"
    by (simp add: computeSecondsRemaining_two_parts [OF s] n Math_max_def jsub_def round64_numeral)
  from s e m c show ?thesis by simp
qed

section \<open>The team codes of a slug\<close>

lemma findIndex_from_strings:
  "findIndex_from is_nfl (map Str xs) i =
     Inr (case findIndex (\<lambda>p. toLowerCase p = ''nfl'') xs of None \<Rightarrow> - 1 | Some k \<Rightarrow> i + int k)"
  by (induction xs arbitrary: i)
    (auto simp: is_nfl_def call_toLowerCase_def split: option.splits)

lemma pick_strings:
  "0 \<le> i \<Longrightarrow> pick (map Str xs) i (Str t) = Inr (Str (upper_or (at_index xs (nat i)) t))"
  by (auto simp: pick_def element_def optional_toUpperCase_def call_toUpperCase_def nullish_def
      upper_or_def at_index_def)

lemma parseTeamsFromSlug_js_eq:
  "parseTeamsFromSlug_js slg =
     Inr (Str (fst (parseTeamsFromSlug slg)), Str (snd (parseTeamsFromSlug slg)))"
proof (cases "findIndex (\<lambda>p. toLowerCase p = ''nfl'') (split_on CHR ''-'' slg)")
  case None
  then show ?thesis
    by (simp add: parseTeamsFromSlug_js_def parseTeamsFromSlug_def findIndex_from_strings
        pick_strings Let_def)
next
  case (Some k)
  have "nat (int k + 1) = k + 1" "nat (int k + 2) = k + 2" by simp_all
  with Some show ?thesis
    by (simp add: parseTeamsFromSlug_js_def parseTeamsFromSlug_def findIndex_from_strings
        pick_strings Let_def)
qed

text \<open>
  Claim C10. \<open>parseTeamsFromSlug\<close> never fails: for every slug the evaluation with the
  failures of JavaScript in the open ends without a \<open>TypeError\<close>, in a pair of strings,
  the pair that the function computes. For a slug with fewer than three hyphen-separated
  parts this pair is the placeholders \<open>TEAM1\<close> and \<open>TEAM2\<close>.
\<close>

theorem parseTeamsFromSlug_total:
  "parseTeamsFromSlug_js slg =
     Inr (Str (fst (parseTeamsFromSlug slg)), Str (snd (parseTeamsFromSlug slg))) \<and>
   (length (split_on CHR ''-'' slg) < 3 \<longrightarrow>
      parseTeamsFromSlug_js slg = Inr (Str ''TEAM1'', Str ''TEAM2'') \<and>
      parseTeamsFromSlug slg = (''TEAM1'', ''TEAM2''))"
proof -
  have "parseTeamsFromSlug slg = (''TEAM1'', ''TEAM2'')"
    if "length (split_on CHR ''-'' slg) < 3"
    using that by (simp add: parseTeamsFromSlug_def Let_def split: option.splits)
  then show ?thesis by (simp add: parseTeamsFromSlug_js_eq)
qed

theorem parseTeamsFromSlug_total_witness:
  "length (split_on CHR ''-'' ''nfl-buf'') < 3 \<and>
   parseTeamsFromSlug_js ''nfl-buf'' = Inr (Str ''TEAM1'', Str ''TEAM2'') \<and>
   parseTeamsFromSlug ''nfl-buf'' = (''TEAM1'', ''TEAM2'')"
  using parseTeamsFromSlug_total [of "''nfl-buf''"] by simp

section \<open>The submission\<close>

subsection \<open>The page after it is mounted\<close>

lemma parseTeamsFromSlug_default_slug:
  "parseTeamsFromSlug ''nfl-buf-hou-2025-11-20'' = (''BUF'', ''HOU'')"
  by (simp add: parseTeamsFromSlug_def at_index_def upper_or_def string_defs)

lemma slugEffect_initial:
  "slugEffect initial =
     \<lparr>slug = ''nfl-buf-hou-2025-11-20'', side = home_yes,
      quarter = Entered (Fin 1), clock = ''15:00'',
      homeScore = Entered (Fin 0), awayScore = Entered (Fin 0), homeHasBall = True,
      yardlineLabel = ''BUF 25'',
      down = Entered (Fin 1), ydstogo = Entered (Fin 10),
      feeCost = Entered (round64 (1 / 100)),
      loading = False, error = None, result = None,
      team1 = ''BUF'', team2 = ''HOU'',
      homeTeam = ''BUF'', awayTeam = ''HOU'',
      yardlineError = None\<rparr>"
  by (simp add: slugEffect_def initial_def parseTeamsFromSlug_default_slug)

lemma parse_BUF_25: "parseYardlineLabel ''BUF 25'' ''BUF'' ''HOU'' = Some (Fin 25)"
proof -
  have "split_ws (trim ''BUF 25'') = [''BUF'', ''25'']" by (simp add: trim_def is_ws_def)
  moreover have "Number ''25'' = Fin 25" by (simp add: Number_defs)
  ultimately show ?thesis by (simp add: parseYardlineLabel_eq string_defs clamped_def)
qed

lemma parse_NYJ_10: "parseYardlineLabel ''NYJ 10'' ''BUF'' ''HOU'' = None"
proof -
  have "split_ws (trim ''NYJ 10'') = [''NYJ'', ''10'']" by (simp add: trim_def is_ws_def)
  moreover have "Number ''10'' = Fin 10" by (simp add: Number_defs)
  ultimately show ?thesis by (simp add: parseYardlineLabel_eq string_defs clamped_def)
qed

lemma parse_HOU_25:
  "parseYardlineLabel ''HOU 25'' ''BUF'' ''HOU'' = Some (Fin 75)"
  "parseYardlineLabel ''HOU 25'' ''HOU'' ''BUF'' = Some (Fin 25)"
proof -
  have s: "split_ws (trim ''HOU 25'') = [''HOU'', ''25'']" by (simp add: trim_def is_ws_def)
  have n: "Number ''25'' = Fin 25" by (simp add: Number_defs)
  show "parseYardlineLabel ''HOU 25'' ''BUF'' ''HOU'' = Some (Fin 75)"
    by (simp add: parseYardlineLabel_eq s n string_defs clamped_def jsub_def round64_numeral)
  show "parseYardlineLabel ''HOU 25'' ''HOU'' ''BUF'' = Some (Fin 25)"
    by (simp add: parseYardlineLabel_eq s n string_defs clamped_def)
qed

subsection \<open>The requests of a submission\<close>

lemma handleSubmit_requests:
  "parseYardlineLabel (yardlineLabel st) (homeTeam st) (awayTeam st) = Some yl \<Longrightarrow>
   snd (handleSubmit st net) = [post (payload st yl)]"
  by (simp add: handleSubmit_def submit_try_def Let_def split: fetched.splits sum.splits)

lemma handleSubmit_invalid:
  "parseYardlineLabel (yardlineLabel st) (homeTeam st) (awayTeam st) = None \<Longrightarrow>
   handleSubmit st net =
     (st\<lparr>error := (if falsy (yardlineError st) then Some ''Invalid yardline format'' else None),
         result := None,
         yardlineError := Some (yardline_message (homeTeam st) (awayTeam st)),
         loading := False\<rparr>, [])"
  by (simp add: handleSubmit_def submit_try_def Let_def)

lemma handleSubmit_not_ok:
  assumes "parseYardlineLabel (yardlineLabel st) (homeTeam st) (awayTeam st) = Some yl"
    and "net (post (payload st yl)) = Resolved res"
    and "\<not> ok res"
    and "body_text res = Inr txt"
  shows "fst (handleSubmit st net) =
    st\<lparr>error :=
         (if falsy (yardlineError st)
          then Some (''Backend error '' @ show_nat (status res) @ '': '' @
                     (if txt = [] then statusText res else txt))
          else None),
       result := None, yardlineError := None, loading := False\<rparr>"
  using assms by (simp add: handleSubmit_def submit_try_def Let_def)

lemma state_field_payload:
  "state_field k (post (payload st yl)) =
     map_of
       [(''quarter'', JNum (clamped 1 4 (parseOrDefault (quarter st) (Fin 1)))),
        (''seconds_remaining'',
         JNum (computeSecondsRemaining (clamped 1 4 (parseOrDefault (quarter st) (Fin 1))) (clock st))),
        (''home_score'', JNum (parseOrDefault (homeScore st) (Fin 0))),
        (''away_score'', JNum (parseOrDefault (awayScore st) (Fin 0))),
        (''score_diff_home'',
         JNum (jsub (parseOrDefault (homeScore st) (Fin 0)) (parseOrDefault (awayScore st) (Fin 0)))),
        (''home_has_ball'', JNum (if homeHasBall st then Fin 1 else Fin 0)),
        (''yardline_100'', JNum yl),
        (''down'', JNum (clamped 1 4 (parseOrDefault (down st) (Fin 1)))),
        (''ydstogo'', JNum (at_least 1 (parseOrDefault (ydstogo st) (Fin 10))))] k"
  by (simp add: state_field_def post_def payload_def Let_def clamp_min_at_least at_least_max)

lemma field_payload:
  "field ''slug'' (body (post (payload st yl))) = Some (JStr (slug st))"
  "field ''side'' (body (post (payload st yl))) = Some (JStr (side_text (side st)))"
  "field ''fee_cost'' (body (post (payload st yl))) =
     Some (JNum (at_least 0 (parseOrDefault (feeCost st) (Fin 0))))"
  by (simp_all add: post_def payload_def Let_def at_least_max)

lemma payload_shape:
  "\<exists>fee fields.
     body (post (payload st yl)) =
       JObj [(''slug'', JStr (slug st)), (''side'', JStr (side_text (side st))),
             (''fee_cost'', JNum fee), (''state'', JObj fields)] \<and>
     list_all (\<lambda>kv. is_num (snd kv)) fields"
  by (simp add: post_def payload_def Let_def is_num_def)

lemma payload_team_update: "payload (st\<lparr>team1 := t1, team2 := t2\<rparr>) yl = payload st yl"
  by (simp add: payload_def)

lemma handleSubmit_ignores_teams:
  "snd (handleSubmit (st\<lparr>team1 := t1, team2 := t2\<rparr>) net) = snd (handleSubmit st net)"
  by (simp add: handleSubmit_def submit_try_def Let_def payload_team_update
      split: option.splits fetched.splits sum.splits)

lemma quarter_clamped:
  "\<exists>r. clamped 1 4 (parseOrDefault v (Fin 1)) = Fin r \<and> 1 \<le> r \<and> r \<le> 4"
proof (cases v)
  case Blank
  then show ?thesis by (simp add: parseOrDefault_def clamped_def)
next
  case (Entered n)
  then show ?thesis by (cases n) (auto simp: parseOrDefault_def clamped_def)
qed

lemma show_nat_404: "show_nat 404 = ''404''"
  by (simp add: show_nat.simps [of 404] show_nat.simps [of 40] show_nat.simps [of 4])

lemma show_nat_500: "show_nat 500 = ''500''"
  by (simp add: show_nat.simps [of 500] show_nat.simps [of 50] show_nat.simps [of 5])

subsection \<open>A label that does not parse\<close>

text \<open>
  Claim C3. For every form state in which the yardline label does not parse against the
  selected home and away codes, the handler passes no request to \<open>fetch\<close>: it sets the
  yardline error of the field and ends the attempt, with no result and the loading flag
  cleared.
\<close>

theorem handleSubmit_invalid_yardline:
  assumes "parseYardlineLabel (yardlineLabel st) (homeTeam st) (awayTeam st) = None"
  shows "snd (handleSubmit st net) = [] \<and>
    yardlineError (fst (handleSubmit st net)) =
      Some (yardline_message (homeTeam st) (awayTeam st)) \<and>
    result (fst (handleSubmit st net)) = None \<and>
    loading (fst (handleSubmit st net)) = False"
  using assms by (simp add: handleSubmit_invalid)

theorem handleSubmit_invalid_yardline_witness:
  "let st = (slugEffect initial)\<lparr>yardlineLabel := ''NYJ 10''\<rparr>;
       net = (\<lambda>req. Rejected ''Failed to fetch'')
   in parseYardlineLabel (yardlineLabel st) (homeTeam st) (awayTeam st) = None \<and>
      snd (handleSubmit st net) = [] \<and>
      yardlineError (fst (handleSubmit st net)) = Some (yardline_message ''BUF'' ''HOU'')"
proof -
  define st where "st = (slugEffect initial)\<lparr>yardlineLabel := ''NYJ 10''\<rparr>"
  have p: "parseYardlineLabel (yardlineLabel st) (homeTeam st) (awayTeam st) = None"
    by (simp add: st_def slugEffect_initial parse_NYJ_10)
  have t: "homeTeam st = ''BUF''" "awayTeam st = ''HOU''"
    by (simp_all add: st_def slugEffect_initial)
  from handleSubmit_invalid_yardline [OF p, of "\<lambda>req. Rejected ''Failed to fetch''"] p
  show ?thesis
    unfolding Let_def st_def [symmetric] by (simp add: t)
qed

subsection \<open>Defaults and bounds of the numeric fields\<close>

lemma fee_default: "round64 (1 / 100) = Fin (5764607523034235 / 576460752303423488)"
  by (simp add: r64)

lemma inputs_in_range_mounted: "inputs_in_range (slugEffect initial)"
  by (simp add: inputs_in_range_def in_range_def slugEffect_initial fee_default)

text \<open>
  Claim C5, as amended. When the handler runs and the label parses, it sends exactly one
  request, whatever the numeric fields hold. In its payload the quarter and the down are
  the field values clamped to the range 1 to 4, the yards to go are at least 1 and the
  fee is at least 0, each computed from the value of the field or, when the field is
  empty, from its default (1, 1, 10 and 0; the scores default to 0): \<open>parseOrDefault\<close>
  returns the fallback for an empty field and the number for a field that holds one. The
  handler is reached only through the checks of the browser: a form with a number input
  below its \<open>min\<close> or above its \<open>max\<close> is refused, and a form that passes the checks
  goes to the handler.
\<close>

theorem handleSubmit_numeric_fields:
  assumes "parseYardlineLabel (yardlineLabel st) (homeTeam st) (awayTeam st) = Some yl"
  shows "(\<exists>q. map (state_field ''quarter'') (snd (handleSubmit st net)) = [Some (JNum q)] \<and>
           q = clamped 1 4 (parseOrDefault (quarter st) (Fin 1)) \<and> jle (Fin 1) q \<and> jle q (Fin 4)) \<and>
    (\<exists>d. map (state_field ''down'') (snd (handleSubmit st net)) = [Some (JNum d)] \<and>
           d = clamped 1 4 (parseOrDefault (down st) (Fin 1)) \<and> jle (Fin 1) d \<and> jle d (Fin 4)) \<and>
    (\<exists>ytg. map (state_field ''ydstogo'') (snd (handleSubmit st net)) = [Some (JNum ytg)] \<and>
           ytg = at_least 1 (parseOrDefault (ydstogo st) (Fin 10)) \<and> jle (Fin 1) ytg) \<and>
    (\<exists>fee. map (\<lambda>req. field ''fee_cost'' (body req)) (snd (handleSubmit st net)) = [Some (JNum fee)] \<and>
           fee = at_least 0 (parseOrDefault (feeCost st) (Fin 0)) \<and> jle (Fin 0) fee) \<and>
    map (state_field ''home_score'') (snd (handleSubmit st net)) =
      [Some (JNum (parseOrDefault (homeScore st) (Fin 0)))] \<and>
    map (state_field ''away_score'') (snd (handleSubmit st net)) =
      [Some (JNum (parseOrDefault (awayScore st) (Fin 0)))] \<and>
    (\<forall>fallback. parseOrDefault Blank fallback = fallback) \<and>
    (\<forall>v fallback. \<not> isNaN v \<longrightarrow> parseOrDefault (Entered v) fallback = v) \<and>
    (\<not> inputs_in_range st \<longrightarrow> submit other_checks st net = (st, [])) \<and>
    (\<not> loading st \<and> inputs_in_range st \<and> other_checks st \<longrightarrow>
       submit other_checks st net = handleSubmit st net)"
proof -
  note r = handleSubmit_requests [OF assms, of net]
  have nn: "\<not> isNaN (parseOrDefault v (Fin a))" for v a
    by (simp add: parseOrDefault_not_NaN)
  have blank: "\<forall>fallback. parseOrDefault Blank fallback = fallback"
    by (simp add: parseOrDefault_def)
  have entered: "\<forall>v fallback. \<not> isNaN v \<longrightarrow> parseOrDefault (Entered v) fallback = v"
    by (simp add: parseOrDefault_def)
  have refused: "\<not> inputs_in_range st \<longrightarrow> submit other_checks st net = (st, [])"
    by (simp add: submit_def)
  have passed: "\<not> loading st \<and> inputs_in_range st \<and> other_checks st \<longrightarrow>
       submit other_checks st net = handleSubmit st net"
    by (simp add: submit_def)
  have fields: "(\<exists>q. map (state_field ''quarter'') [post (payload st yl)] = [Some (JNum q)] \<and>
           q = clamped 1 4 (parseOrDefault (quarter st) (Fin 1)) \<and> jle (Fin 1) q \<and> jle q (Fin 4)) \<and>
    (\<exists>d. map (state_field ''down'') [post (payload st yl)] = [Some (JNum d)] \<and>
           d = clamped 1 4 (parseOrDefault (down st) (Fin 1)) \<and> jle (Fin 1) d \<and> jle d (Fin 4)) \<and>
    (\<exists>ytg. map (state_field ''ydstogo'') [post (payload st yl)] = [Some (JNum ytg)] \<and>
           ytg = at_least 1 (parseOrDefault (ydstogo st) (Fin 10)) \<and> jle (Fin 1) ytg) \<and>
    (\<exists>fee. map (\<lambda>req. field ''fee_cost'' (body req)) [post (payload st yl)] = [Some (JNum fee)] \<and>
           fee = at_least 0 (parseOrDefault (feeCost st) (Fin 0)) \<and> jle (Fin 0) fee) \<and>
    map (state_field ''home_score'') [post (payload st yl)] =
      [Some (JNum (parseOrDefault (homeScore st) (Fin 0)))] \<and>
    map (state_field ''away_score'') [post (payload st yl)] =
      [Some (JNum (parseOrDefault (awayScore st) (Fin 0)))]"
    by (simp add: state_field_payload field_payload clamped_range at_least_range nn)
  from fields blank entered refused passed show ?thesis
    unfolding r by blast
qed

text \<open>
  In the handler a down of 7 is sent as 4, a fee of \<open>-1\<close> as 0 and an empty quarter as
  1. The browser refuses this form, and passes the page as mounted on to the handler.
\<close>

theorem handleSubmit_numeric_fields_witness:
  "let st = (slugEffect initial)\<lparr>quarter := Blank, down := Entered (Fin 7),
              feeCost := Entered (Fin (- 1))\<rparr>;
       net = (\<lambda>req. Rejected ''Failed to fetch'')
   in parseYardlineLabel (yardlineLabel st) (homeTeam st) (awayTeam st) = Some (Fin 25) \<and>
      map (state_field ''quarter'') (snd (handleSubmit st net)) = [Some (JNum (Fin 1))] \<and>
      map (state_field ''down'') (snd (handleSubmit st net)) = [Some (JNum (Fin 4))] \<and>
      map (\<lambda>req. field ''fee_cost'' (body req)) (snd (handleSubmit st net)) = [Some (JNum (Fin 0))] \<and>
      \<not> inputs_in_range st \<and>
      submit (\<lambda>st. True) st net = (st, []) \<and>
      \<not> loading (slugEffect initial) \<and> inputs_in_range (slugEffect initial) \<and>
      submit (\<lambda>st. True) (slugEffect initial) net = handleSubmit (slugEffect initial) net"
proof -
  define st where "st = (slugEffect initial)\<lparr>quarter := Blank, down := Entered (Fin 7),
              feeCost := Entered (Fin (- 1))\<rparr>"
  define net :: "request \<Rightarrow> fetched" where "net = (\<lambda>req. Rejected ''Failed to fetch'')"
  have p: "parseYardlineLabel (yardlineLabel st) (homeTeam st) (awayTeam st) = Some (Fin 25)"
    by (simp add: st_def slugEffect_initial parse_BUF_25)
  have p0: "parseYardlineLabel (yardlineLabel (slugEffect initial)) (homeTeam (slugEffect initial))
      (awayTeam (slugEffect initial)) = Some (Fin 25)"
    by (simp add: slugEffect_initial parse_BUF_25)
  have v: "quarter st = Blank" "down st = Entered (Fin 7)" "feeCost st = Entered (Fin (- 1))"
    by (simp_all add: st_def slugEffect_initial)
  have out: "\<not> inputs_in_range st"
    by (simp add: inputs_in_range_def in_range_def v)
  have l: "\<not> loading (slugEffect initial)" by (simp add: slugEffect_initial)
  note t = handleSubmit_numeric_fields [OF p, where net = net and other_checks = "\<lambda>st. True"]
  note t0 = handleSubmit_numeric_fields [OF p0, where net = net and other_checks = "\<lambda>st. True"]
  have fields: "map (state_field ''quarter'') (snd (handleSubmit st net)) = [Some (JNum (Fin 1))] \<and>
      map (state_field ''down'') (snd (handleSubmit st net)) = [Some (JNum (Fin 4))] \<and>
      map (\<lambda>req. field ''fee_cost'' (body req)) (snd (handleSubmit st net)) = [Some (JNum (Fin 0))]"
    using t by (simp add: v parseOrDefault_def clamped_def at_least_def)
  have refused: "submit (\<lambda>st. True) st net = (st, [])"
    using t out by blast
  have passed: "submit (\<lambda>st. True) (slugEffect initial) net = handleSubmit (slugEffect initial) net"
    using t0 l inputs_in_range_mounted by blast
  from p fields out refused l inputs_in_range_mounted passed show ?thesis
    unfolding Let_def st_def [symmetric] net_def [symmetric] by blast
qed

text \<open>
  Claim C5 as it is stated fails: on the page a down of 7 is not clamped to 4, because the
  submission is refused. The input declares \<open>max\<close> 4, the handler is not called and
  nothing is sent.
\<close>

theorem handleSubmit_numeric_fields_counterexample:
  "let st = (slugEffect initial)\<lparr>down := Entered (Fin 7)\<rparr>;
       net = (\<lambda>req. Rejected ''Failed to fetch'')
   in down st = Entered (Fin 7) \<and>
      \<not> in_range (Some 1) (Some 4) (down st) \<and>
      submit (\<lambda>st. True) st net = (st, []) \<and>
      snd (submit (\<lambda>st. True) st net) = []"
proof -
  define st where "st = (slugEffect initial)\<lparr>down := Entered (Fin 7)\<rparr>"
  have d: "down st = Entered (Fin 7)" by (simp add: st_def slugEffect_initial)
  have r: "\<not> in_range (Some 1) (Some 4) (down st)" by (simp add: d in_range_def)
  then have "\<not> inputs_in_range st" by (simp add: inputs_in_range_def)
  then have "submit (\<lambda>st. True) st net = (st, [])" for net by (simp add: submit_def)
  with d r show ?thesis
    unfolding Let_def st_def [symmetric] by simp
qed

subsection \<open>The seconds remaining\<close>

lemma jadd_Fin_D: "jadd x y = Fin t \<Longrightarrow> \<not> isNaN x \<and> \<not> isNaN y"
  by (cases x; cases y) simp_all

lemma jmul_not_NaN_D: "\<not> isNaN (jmul x y) \<Longrightarrow> \<not> isNaN x"
  by (cases x) simp_all

text \<open>For a quarter between 1 and 4 the full quarters that remain are between 0 and 2700.\<close>

lemma full_quarters_bound:
  assumes "1 \<le> qr" and "qr \<le> 4"
  shows "\<exists>r. jmul (jmul (Math_max (Fin 0) (jsub (Fin 4) (Fin qr))) (Fin 15)) (Fin 60) = Fin r \<and>
    0 \<le> r \<and> r \<le> 2700"
proof -
  obtain d where d: "round64 (4 - qr) = Fin d" "0 \<le> d" "d \<le> 3"
    using round64_le [of "4 - qr" 3] assms by auto
  then have m: "Math_max (Fin 0) (jsub (Fin 4) (Fin qr)) = Fin d"
    by (simp add: jsub_def Math_max_def)
  obtain p where p: "round64 (d * 15) = Fin p" "0 \<le> p" "p \<le> 45"
    using round64_le [of "d * 15" 45] d by auto
  obtain r where r: "round64 (p * 60) = Fin r" "0 \<le> r" "r \<le> 2700"
    using round64_le [of "p * 60" 2700] p by auto
  from m p r show ?thesis by simp
qed

lemma seconds_within:
  assumes "split_on CHR '':'' clk = [mins, secs]"
    and "jadd (jmul (Number mins) (Fin 60)) (Number secs) = Fin t"
    and "0 \<le> t" and "t \<le> 900" and "1 \<le> qr" and "qr \<le> 4"
  shows "\<exists>r. computeSecondsRemaining (Fin qr) clk = Fin r \<and> 0 \<le> r \<and> r \<le> 3600"
proof -
  from jadd_Fin_D [OF assms(2)] have n: "\<not> isNaN (Number mins)" "\<not> isNaN (Number secs)"
    by (auto dest: jmul_not_NaN_D)
  obtain r where r: "jmul (jmul (Math_max (Fin 0) (jsub (Fin 4) (Fin qr))) (Fin 15)) (Fin 60) = Fin r"
    "0 \<le> r" "r \<le> 2700"
    using full_quarters_bound [OF assms(5,6)] by blast
  obtain z where z: "round64 (t + r) = Fin z" "0 \<le> z" "z \<le> 3600"
    using round64_le [of "t + r" 3600] assms(3,4) r by auto
  have "computeSecondsRemaining (Fin qr) clk = Fin z"
    by (simp add: computeSecondsRemaining_two_parts [OF assms(1) n] assms(2) r(1) z(1))
  with z show ?thesis by blast
qed

text \<open>
  Claim C6, as amended. In every submitted payload, for every value of the quarter
  field: when the clock is rejected by the conversion, \<open>seconds_remaining\<close> is 0; when
  the clock splits at the colon into two parts for which the code computes, as
  \<open>m * 60 + s\<close>, a value between 0 and 900, \<open>seconds_remaining\<close> lies between 0 and
  3600. The second case covers every clock of whole minutes \<open>m\<close> (of at most \<open>2 ^ 40\<close>)
  and whole seconds \<open>s\<close> with \<open>0 \<le> 60 m + s \<le> 900\<close>.
\<close>

theorem seconds_remaining_range:
  assumes "parseYardlineLabel (yardlineLabel st) (homeTeam st) (awayTeam st) = Some yl"
  shows "((\<forall>a b. split_on CHR '':'' (clock st) = [a, b] \<longrightarrow> isNaN (Number a) \<or> isNaN (Number b)) \<longrightarrow>
      map (state_field ''seconds_remaining'') (snd (handleSubmit st net)) = [Some (JNum (Fin 0))]) \<and>
    (split_on CHR '':'' (clock st) = [mins, secs] \<and>
      jadd (jmul (Number mins) (Fin 60)) (Number secs) = Fin t \<and> 0 \<le> t \<and> t \<le> 900 \<longrightarrow>
      (\<exists>r. map (state_field ''seconds_remaining'') (snd (handleSubmit st net)) = [Some (JNum (Fin r))] \<and>
           0 \<le> r \<and> r \<le> 3600)) \<and>
    (split_on CHR '':'' (clock st) = [mins, secs] \<and>
      Number mins = Fin (of_int m) \<and> Number secs = Fin (of_int s) \<and> \<bar>m\<bar> \<le> 2 ^ 40 \<and>
      0 \<le> m * 60 + s \<and> m * 60 + s \<le> 900 \<longrightarrow>
      (\<exists>r. map (state_field ''seconds_remaining'') (snd (handleSubmit st net)) = [Some (JNum (Fin r))] \<and>
           0 \<le> r \<and> r \<le> 3600))"
proof -
  note r = handleSubmit_requests [OF assms, of net]
  obtain qr where q: "clamped 1 4 (parseOrDefault (quarter st) (Fin 1)) = Fin qr" "1 \<le> qr" "qr \<le> 4"
    using quarter_clamped by blast
  have a: "map (state_field ''seconds_remaining'') (snd (handleSubmit st net)) = [Some (JNum (Fin 0))]"
    if "\<forall>a b. split_on CHR '':'' (clock st) = [a, b] \<longrightarrow> isNaN (Number a) \<or> isNaN (Number b)"
    using that by (simp add: r state_field_payload computeSecondsRemaining_rejected)
  have b: "\<exists>r. map (state_field ''seconds_remaining'') (snd (handleSubmit st net)) = [Some (JNum (Fin r))] \<and>
           0 \<le> r \<and> r \<le> 3600"
    if h: "split_on CHR '':'' (clock st) = [mins, secs]"
      "jadd (jmul (Number mins) (Fin 60)) (Number secs) = Fin t" "0 \<le> t" "t \<le> 900"
    for t
    using seconds_within [OF h q(2,3)] by (auto simp: r state_field_payload q(1))
  have c: "\<exists>r. map (state_field ''seconds_remaining'') (snd (handleSubmit st net)) = [Some (JNum (Fin r))] \<and>
           0 \<le> r \<and> r \<le> 3600"
    if h: "split_on CHR '':'' (clock st) = [mins, secs]"
      "Number mins = Fin (of_int m)" "Number secs = Fin (of_int s)" "\<bar>m\<bar> \<le> 2 ^ 40"
      "0 \<le> m * 60 + s" "m * 60 + s \<le> 900"
  proof -
    from h(4) have mb: "- 1099511627776 \<le> m" "m \<le> 1099511627776" by simp_all
    have 1: "jmul (Fin (of_int m)) (Fin 60) = Fin (of_int (m * 60))"
      using jmul_int [of m 60] mb by (simp add: abs_le_iff)
    have 2: "jadd (Fin (of_int (m * 60))) (Fin (of_int s)) = Fin (of_int (m * 60 + s))"
      by (rule jadd_int) (use h(5,6) in \<open>simp add: abs_le_iff\<close>)
    have "jadd (jmul (Number mins) (Fin 60)) (Number secs) = Fin (of_int (m * 60 + s))"
      unfolding h(2,3) 1 2 ..
    moreover have "(of_int 0 :: real) \<le> of_int (m * 60 + s)"
      "(of_int (m * 60 + s) :: real) \<le> of_int 900"
      using h(5,6) by (simp_all only: of_int_le_iff)
    then have "(0::real) \<le> of_int (m * 60 + s)" "(of_int (m * 60 + s) :: real) \<le> 900"
      by simp_all
    ultimately show ?thesis using b [OF h(1)] by blast
  qed
  from a b c show ?thesis by blast
qed

theorem seconds_remaining_range_witness:
  "let st = (slugEffect initial)\<lparr>quarter := Entered (Fin 2), clock := ''7:30''\<rparr>;
       st' = (slugEffect initial)\<lparr>clock := ''soon''\<rparr>;
       net = (\<lambda>req. Rejected ''Failed to fetch'')
   in parseYardlineLabel (yardlineLabel st) (homeTeam st) (awayTeam st) = Some (Fin 25) \<and>
      split_on CHR '':'' (clock st) = [''7'', ''30''] \<and>
      Number ''7'' = Fin 7 \<and> Number ''30'' = Fin 30 \<and>
      jadd (jmul (Number ''7'') (Fin 60)) (Number ''30'') = Fin 450 \<and>
      map (state_field ''seconds_remaining'') (snd (handleSubmit st net)) = [Some (JNum (Fin 2250))] \<and>
      parseYardlineLabel (yardlineLabel st') (homeTeam st') (awayTeam st') = Some (Fin 25) \<and>
      split_on CHR '':'' (clock st') = [''soon''] \<and>
      map (state_field ''seconds_remaining'') (snd (handleSubmit st' net)) = [Some (JNum (Fin 0))]"
proof -
  define st where "st = (slugEffect initial)\<lparr>quarter := Entered (Fin 2), clock := ''7:30''\<rparr>"
  define st' where "st' = (slugEffect initial)\<lparr>clock := ''soon''\<rparr>"
  define net :: "request \<Rightarrow> fetched" where "net = (\<lambda>req. Rejected ''Failed to fetch'')"
  have p: "parseYardlineLabel (yardlineLabel st) (homeTeam st) (awayTeam st) = Some (Fin 25)"
    by (simp add: st_def slugEffect_initial parse_BUF_25)
  have p': "parseYardlineLabel (yardlineLabel st') (homeTeam st') (awayTeam st') = Some (Fin 25)"
    by (simp add: st'_def slugEffect_initial parse_BUF_25)
  have c: "split_on CHR '':'' (clock st) = [''7'', ''30'']"
    by (simp add: st_def slugEffect_initial)
  have c': "split_on CHR '':'' (clock st') = [''soon'']"
    by (simp add: st'_def slugEffect_initial)
  have n: "Number ''7'' = Fin 7" "Number ''30'' = Fin 30"
    by (simp_all add: Number_defs)
  have t: "jadd (jmul (Number ''7'') (Fin 60)) (Number ''30'') = Fin 450"
    by (simp add: n round64_numeral)
  have q: "quarter st = Entered (Fin 2)"
    by (simp add: st_def slugEffect_initial)
  have sr: "state_field ''seconds_remaining'' (post (payload st (Fin 25))) = Some (JNum (Fin 2250))"
    by (simp add: state_field_payload q parseOrDefault_def clamped_def
        computeSecondsRemaining_two_parts [OF c] n Math_max_def jsub_def round64_numeral)
  have 1: "map (state_field ''seconds_remaining'') (snd (handleSubmit st net)) = [Some (JNum (Fin 2250))]"
    using seconds_remaining_range [OF p, where mins = "''7''" and secs = "''30''" and t = 450
        and m = 7 and s = 30 and net = net] c t
    by (simp add: handleSubmit_requests [OF p] sr)
  have 2: "map (state_field ''seconds_remaining'') (snd (handleSubmit st' net)) = [Some (JNum (Fin 0))]"
    using seconds_remaining_range [OF p', where net = net, THEN conjunct1] c' by simp
  from p p' c c' n t 1 2 show ?thesis
    unfolding Let_def st_def [symmetric] st'_def [symmetric] net_def [symmetric] by simp
qed

text \<open>
  Claim C6 as it is stated fails: with the quarter 1 and the clock \<open>99:00\<close> the payload
  carries 8640 seconds.
\<close>

theorem seconds_remaining_range_counterexample:
  "let st = (slugEffect initial)\<lparr>clock := ''99:00''\<rparr>;
       net = (\<lambda>req. Rejected ''Failed to fetch'')
   in quarter st = Entered (Fin 1) \<and>
      map (state_field ''seconds_remaining'') (snd (handleSubmit st net)) = [Some (JNum (Fin 8640))] \<and>
      \<not> jle (Fin 8640) (Fin 3600)"
proof -
  define st where "st = (slugEffect initial)\<lparr>clock := ''99:00''\<rparr>"
  have p: "parseYardlineLabel (yardlineLabel st) (homeTeam st) (awayTeam st) = Some (Fin 25)"
    by (simp add: st_def slugEffect_initial parse_BUF_25)
  have c: "split_on CHR '':'' (clock st) = [''99'', ''00'']"
    by (simp add: st_def slugEffect_initial)
  have n: "Number ''99'' = Fin 99" "Number ''00'' = Fin 0"
    by (simp_all add: Number_defs)
  have q: "quarter st = Entered (Fin 1)"
    by (simp add: st_def slugEffect_initial)
  have sr: "state_field ''seconds_remaining'' (post (payload st (Fin 25))) = Some (JNum (Fin 8640))"
    by (simp add: state_field_payload q parseOrDefault_def clamped_def
        computeSecondsRemaining_two_parts [OF c] n Math_max_def jsub_def round64_numeral)
  show ?thesis
    unfolding Let_def st_def [symmetric]
    by (simp add: handleSubmit_requests [OF p] sr q jle_def)
qed

subsection \<open>The possession flag\<close>

text \<open>
  Claim C8, as amended. In every submitted payload the field \<open>home_has_ball\<close> of the
  state is a number: 1 when the home team has the ball in the form, and 0 otherwise.
\<close>

theorem home_has_ball_number:
  assumes "parseYardlineLabel (yardlineLabel st) (homeTeam st) (awayTeam st) = Some yl"
  shows "map (state_field ''home_has_ball'') (snd (handleSubmit st net)) =
    [Some (JNum (if homeHasBall st then Fin 1 else Fin 0))]"
  by (simp add: handleSubmit_requests [OF assms] state_field_payload)

theorem home_has_ball_number_witness:
  "let st = (slugEffect initial)\<lparr>homeHasBall := False\<rparr>;
       net = (\<lambda>req. Rejected ''Failed to fetch'')
   in parseYardlineLabel (yardlineLabel st) (homeTeam st) (awayTeam st) = Some (Fin 25) \<and>
      map (state_field ''home_has_ball'') (snd (handleSubmit st net)) = [Some (JNum (Fin 0))]"
proof -
  define st where "st = (slugEffect initial)\<lparr>homeHasBall := False\<rparr>"
  have p: "parseYardlineLabel (yardlineLabel st) (homeTeam st) (awayTeam st) = Some (Fin 25)"
    by (simp add: st_def slugEffect_initial parse_BUF_25)
  have h: "\<not> homeHasBall st" by (simp add: st_def slugEffect_initial)
  from home_has_ball_number [OF p, of "\<lambda>req. Rejected ''Failed to fetch''"] p h
  show ?thesis
    unfolding Let_def st_def [symmetric] by simp
qed

text \<open>
  Claim C8 as it is stated fails: the page as mounted, where the home team has the ball,
  sends the number 1, which is neither \<open>true\<close> nor \<open>false\<close>.
\<close>

theorem home_has_ball_number_counterexample:
  "let st = slugEffect initial;
       net = (\<lambda>req. Rejected ''Failed to fetch'')
   in homeHasBall st \<and>
      map (state_field ''home_has_ball'') (snd (handleSubmit st net)) = [Some (JNum (Fin 1))] \<and>
      JNum (Fin 1) \<noteq> JBool True \<and> JNum (Fin 1) \<noteq> JBool False"
proof -
  define st where "st = slugEffect initial"
  have p: "parseYardlineLabel (yardlineLabel st) (homeTeam st) (awayTeam st) = Some (Fin 25)"
    by (simp add: st_def slugEffect_initial parse_BUF_25)
  have h: "homeHasBall st" by (simp add: st_def slugEffect_initial)
  show ?thesis
    unfolding Let_def st_def [symmetric]
    by (simp add: handleSubmit_requests [OF p] state_field_payload h)
qed

subsection \<open>A response that is not a success\<close>

text \<open>
  Claim C7, as amended. For every response with a status outside 200 to 299 whose body
  text can be read, received for a form that showed no yardline error when it was
  submitted, the submission fails: there is no result, and the error of the page is
  \<open>Backend error\<close>, the status code and a colon, followed by the body text or, when the
  body is empty, by the status text.
\<close>

theorem handleSubmit_backend_error:
  assumes "parseYardlineLabel (yardlineLabel st) (homeTeam st) (awayTeam st) = Some yl"
    and "net (post (payload st yl)) = Resolved res"
    and "\<not> ok res"
    and "body_text res = Inr txt"
    and "falsy (yardlineError st)"
  shows "error (fst (handleSubmit st net)) =
      Some (''Backend error '' @ show_nat (status res) @ '': '' @
            (if txt = [] then statusText res else txt)) \<and>
    result (fst (handleSubmit st net)) = None \<and>
    loading (fst (handleSubmit st net)) = False"
  using assms(5) by (simp add: handleSubmit_not_ok [where net = net, OF assms(1-4)])

theorem handleSubmit_backend_error_witness:
  "let st = slugEffect initial;
       res = \<lparr>status = 404, statusText = ''Not Found'', body_text = Inr '''', body_json = Inl ''''\<rparr>;
       net = (\<lambda>req. Resolved res)
   in parseYardlineLabel (yardlineLabel st) (homeTeam st) (awayTeam st) = Some (Fin 25) \<and>
      net (post (payload st (Fin 25))) = Resolved res \<and> \<not> ok res \<and> body_text res = Inr '''' \<and>
      falsy (yardlineError st) \<and>
      error (fst (handleSubmit st net)) = Some ''Backend error 404: Not Found'' \<and>
      result (fst (handleSubmit st net)) = None"
proof -
  define st where "st = slugEffect initial"
  define res where
    "res = \<lparr>status = 404, statusText = ''Not Found'', body_text = Inr '''', body_json = Inl ''''\<rparr>"
  define net :: "request \<Rightarrow> fetched" where "net = (\<lambda>req. Resolved res)"
  have p: "parseYardlineLabel (yardlineLabel st) (homeTeam st) (awayTeam st) = Some (Fin 25)"
    by (simp add: st_def slugEffect_initial parse_BUF_25)
  have n: "net (post (payload st (Fin 25))) = Resolved res" by (simp add: net_def)
  have o: "\<not> ok res" by (simp add: ok_def res_def)
  have t: "body_text res = Inr ''''" by (simp add: res_def)
  have f: "falsy (yardlineError st)" by (simp add: st_def slugEffect_initial falsy_def)
  have r: "status res = 404" "statusText res = ''Not Found''" by (simp_all add: res_def)
  from handleSubmit_backend_error [where net = net, OF p n o t f] p n o t f
  show ?thesis
    unfolding Let_def st_def [symmetric] res_def [symmetric] net_def [symmetric]
    by (simp add: r show_nat_404)
qed

text \<open>
  Claim C7 as it is stated fails: for the status 500 with the body \<open>boom\<close> the error of
  the page is \<open>Backend error 500: boom\<close>, not the body text itself.
\<close>

theorem handleSubmit_backend_error_counterexample:
  "let st = slugEffect initial;
       res = \<lparr>status = 500, statusText = ''Internal Server Error'', body_text = Inr ''boom'',
              body_json = Inl ''''\<rparr>;
       net = (\<lambda>req. Resolved res)
   in \<not> ok res \<and> body_text res = Inr ''boom'' \<and>
      error (fst (handleSubmit st net)) = Some ''Backend error 500: boom'' \<and>
      error (fst (handleSubmit st net)) \<noteq> Some ''boom''"
proof -
  define st where "st = slugEffect initial"
  define res where
    "res = \<lparr>status = 500, statusText = ''Internal Server Error'', body_text = Inr ''boom'',
              body_json = Inl ''''\<rparr>"
  define net :: "request \<Rightarrow> fetched" where "net = (\<lambda>req. Resolved res)"
  have p: "parseYardlineLabel (yardlineLabel st) (homeTeam st) (awayTeam st) = Some (Fin 25)"
    by (simp add: st_def slugEffect_initial parse_BUF_25)
  have n: "net (post (payload st (Fin 25))) = Resolved res" by (simp add: net_def)
  have o: "\<not> ok res" by (simp add: ok_def res_def)
  have t: "body_text res = Inr ''boom''" by (simp add: res_def)
  have f: "falsy (yardlineError st)" by (simp add: st_def slugEffect_initial falsy_def)
  have r: "status res = 500" by (simp add: res_def)
  have "error (fst (handleSubmit st net)) = Some ''Backend error 500: boom''"
    by (simp add: handleSubmit_not_ok [where net = net, OF p n o t] f r show_nat_500)
  with o t show ?thesis
    unfolding Let_def st_def [symmetric] res_def [symmetric] net_def [symmetric]
    by simp
qed

text \<open>
  The \<open>catch\<close> handler tests the yardline error that the form showed when it was
  submitted. When that error was set, by an earlier attempt, a failure of the request
  leaves the error of the page empty.
\<close>

lemma handleSubmit_stale_yardlineError:
  assumes "parseYardlineLabel (yardlineLabel st) (homeTeam st) (awayTeam st) = Some yl"
    and "\<not> falsy (yardlineError st)"
  shows "error (fst (handleSubmit st net)) = None"
  using assms
  by (simp add: handleSubmit_def submit_try_def Let_def split: fetched.splits sum.splits)

subsection \<open>The derived codes and the payload\<close>

text \<open>
  Claim C9, as amended. The slug is split at the hyphens. When the first part that is
  \<open>nfl\<close>, ignoring case, is followed by at least two parts, the codes are these two parts
  in upper case. Otherwise, when there are at least three parts, whether no part is
  \<open>nfl\<close> or the first such part is not followed by two parts, the codes are the parts at
  positions 1 and 2 in upper case. The effect of a slug change selects the derived
  codes as the home and away codes. The payload of a request holds the slug itself, the
  side, the fee and a state made of numbers, so no derived code, and the requests do not
  depend on the derived pair kept for the labels.
\<close>

theorem parseTeamsFromSlug_codes:
  assumes "split_on CHR ''-'' slg = parts"
  shows "(i < length parts \<and> toLowerCase (parts ! i) = ''nfl'' \<and>
      (\<forall>j<i. toLowerCase (parts ! j) \<noteq> ''nfl'') \<and> i + 3 \<le> length parts \<longrightarrow>
      parseTeamsFromSlug slg = (toUpperCase (parts ! (i + 1)), toUpperCase (parts ! (i + 2)))) \<and>
    (i < length parts \<and> toLowerCase (parts ! i) = ''nfl'' \<and>
      (\<forall>j<i. toLowerCase (parts ! j) \<noteq> ''nfl'') \<and> length parts < i + 3 \<and> 3 \<le> length parts \<longrightarrow>
      parseTeamsFromSlug slg = (toUpperCase (parts ! 1), toUpperCase (parts ! 2))) \<and>
    ((\<forall>p\<in>set parts. toLowerCase p \<noteq> ''nfl'') \<and> 3 \<le> length parts \<longrightarrow>
      parseTeamsFromSlug slg = (toUpperCase (parts ! 1), toUpperCase (parts ! 2))) \<and>
    (homeTeam (slugEffect st), awayTeam (slugEffect st)) = parseTeamsFromSlug (slug st) \<and>
    (parseYardlineLabel (yardlineLabel st) (homeTeam st) (awayTeam st) = Some yl \<longrightarrow>
      (\<exists>fee fields.
         map body (snd (handleSubmit st net)) =
           [JObj [(''slug'', JStr (slug st)), (''side'', JStr (side_text (side st))),
                  (''fee_cost'', JNum fee), (''state'', JObj fields)]] \<and>
         list_all (\<lambda>kv. is_num (snd kv)) fields) \<and>
      snd (handleSubmit (st\<lparr>team1 := t1, team2 := t2\<rparr>) net) = snd (handleSubmit st net))"
proof -
  have a: "parseTeamsFromSlug slg = (toUpperCase (parts ! (i + 1)), toUpperCase (parts ! (i + 2)))"
    if "i < length parts" "toLowerCase (parts ! i) = ''nfl''"
      "\<forall>j<i. toLowerCase (parts ! j) \<noteq> ''nfl''" "i + 3 \<le> length parts"
  proof -
    have "findIndex (\<lambda>p. toLowerCase p = ''nfl'') parts = Some i"
      using that(1-3) by (intro findIndex_first) auto
    with that(4) assms show ?thesis
      by (simp add: parseTeamsFromSlug_def at_index_def upper_or_def)
  qed
  have b: "parseTeamsFromSlug slg = (toUpperCase (parts ! 1), toUpperCase (parts ! 2))"
    if "i < length parts" "toLowerCase (parts ! i) = ''nfl''"
      "\<forall>j<i. toLowerCase (parts ! j) \<noteq> ''nfl''" "length parts < i + 3" "3 \<le> length parts"
  proof -
    have "findIndex (\<lambda>p. toLowerCase p = ''nfl'') parts = Some i"
      using that(1-3) by (intro findIndex_first) auto
    with that(4,5) assms show ?thesis
      by (simp add: parseTeamsFromSlug_def at_index_def upper_or_def)
  qed
  have c: "parseTeamsFromSlug slg = (toUpperCase (parts ! 1), toUpperCase (parts ! 2))"
    if "\<forall>p\<in>set parts. toLowerCase p \<noteq> ''nfl''" "3 \<le> length parts"
  proof -
    have "findIndex (\<lambda>p. toLowerCase p = ''nfl'') parts = None"
      using that(1) by (intro findIndex_none) auto
    with that(2) assms show ?thesis
      by (simp add: parseTeamsFromSlug_def at_index_def upper_or_def)
  qed
  have d: "\<exists>fee fields.
         map body (snd (handleSubmit st net)) =
           [JObj [(''slug'', JStr (slug st)), (''side'', JStr (side_text (side st))),
                  (''fee_cost'', JNum fee), (''state'', JObj fields)]] \<and>
         list_all (\<lambda>kv. is_num (snd kv)) fields"
    if "parseYardlineLabel (yardlineLabel st) (homeTeam st) (awayTeam st) = Some yl"
    using payload_shape [of st yl] by (simp add: handleSubmit_requests [OF that])
  have e: "(homeTeam (slugEffect st), awayTeam (slugEffect st)) = parseTeamsFromSlug (slug st)"
    by (simp add: slugEffect_def Let_def)
  from a b c d e handleSubmit_ignores_teams show ?thesis by blast
qed

theorem parseTeamsFromSlug_codes_witness:
  "parseTeamsFromSlug ''nfl-buf-hou-2025-11-20'' = (''BUF'', ''HOU'') \<and>
   parseTeamsFromSlug ''a-nfl-b'' = (''NFL'', ''B'') \<and>
   parseTeamsFromSlug ''2025-buf-hou'' = (''BUF'', ''HOU'') \<and>
   parseYardlineLabel (yardlineLabel (slugEffect initial)) (homeTeam (slugEffect initial))
     (awayTeam (slugEffect initial)) = Some (Fin 25) \<and>
   map (\<lambda>req. field ''slug'' (body req))
     (snd (handleSubmit (slugEffect initial) (\<lambda>req. Rejected ''Failed to fetch''))) =
     [Some (JStr ''nfl-buf-hou-2025-11-20'')]"
proof -
  have s1: "split_on CHR ''-'' ''nfl-buf-hou-2025-11-20'' = [''nfl'', ''buf'', ''hou'', ''2025'', ''11'', ''20'']"
    by simp
  have s2: "split_on CHR ''-'' ''a-nfl-b'' = [''a'', ''nfl'', ''b'']" by simp
  have s3: "split_on CHR ''-'' ''2025-buf-hou'' = [''2025'', ''buf'', ''hou'']" by simp
  have p: "parseYardlineLabel (yardlineLabel (slugEffect initial)) (homeTeam (slugEffect initial))
     (awayTeam (slugEffect initial)) = Some (Fin 25)"
    by (simp add: slugEffect_initial parse_BUF_25)
  have 1: "parseTeamsFromSlug ''nfl-buf-hou-2025-11-20'' = (''BUF'', ''HOU'')"
    using parseTeamsFromSlug_codes [OF s1, where i = 0] by (simp add: string_defs)
  have 2: "parseTeamsFromSlug ''a-nfl-b'' = (''NFL'', ''B'')"
    using parseTeamsFromSlug_codes [OF s2, where i = 1] by (simp add: string_defs)
  have 3: "parseTeamsFromSlug ''2025-buf-hou'' = (''BUF'', ''HOU'')"
    using parseTeamsFromSlug_codes [OF s3] by (simp add: string_defs)
  have 4: "map (\<lambda>req. field ''slug'' (body req))
     (snd (handleSubmit (slugEffect initial) (\<lambda>req. Rejected ''Failed to fetch''))) =
     [Some (JStr ''nfl-buf-hou-2025-11-20'')]"
  proof -
    define st where "st = slugEffect initial"
    define net :: "request \<Rightarrow> fetched" where "net = (\<lambda>req. Rejected ''Failed to fetch'')"
    have sl: "slug st = ''nfl-buf-hou-2025-11-20''" by (simp add: st_def slugEffect_initial)
    have p': "parseYardlineLabel (yardlineLabel st) (homeTeam st) (awayTeam st) = Some (Fin 25)"
      using p by (simp add: st_def)
    note payload_part = parseTeamsFromSlug_codes [OF s1, where st = st and yl = "Fin 25"
        and net = net and i = 0 and ?t1.0 = "[]" and ?t2.0 = "[]",
        THEN conjunct2, THEN conjunct2, THEN conjunct2, THEN conjunct2, THEN mp, OF p',
        THEN conjunct1]
    then obtain fee fields where
      "map body (snd (handleSubmit st net)) =
         [JObj [(''slug'', JStr (slug st)), (''side'', JStr (side_text (side st))),
                (''fee_cost'', JNum fee), (''state'', JObj fields)]]"
      by (elim exE conjE)
    then have "map (field ''slug'') (map body (snd (handleSubmit st net))) = [Some (JStr (slug st))]"
      by simp
    then show ?thesis by (simp add: sl comp_def st_def [symmetric] net_def [symmetric])
  qed
  from 1 2 3 p 4 show ?thesis by simp
qed

text \<open>
  Claim C9 as it is stated fails. The slug \<open>a-nfl-b\<close> has an \<open>nfl\<close> part, followed by
  \<open>b\<close>, and the first code returned is \<open>NFL\<close>, the part at position 1. And the derived
  codes are not kept to the labels: they are the home and away codes of the page as
  mounted, where the label \<open>HOU 25\<close> is sent as the yardline 75, and as 25 once the two
  codes are exchanged.
\<close>

theorem parseTeamsFromSlug_codes_counterexample:
  "split_on CHR ''-'' ''a-nfl-b'' = [''a'', ''nfl'', ''b''] \<and>
   toLowerCase ''nfl'' = ''nfl'' \<and>
   parseTeamsFromSlug ''a-nfl-b'' = (''NFL'', ''B'') \<and>
   fst (parseTeamsFromSlug ''a-nfl-b'') \<noteq> toUpperCase ''b'' \<and>
   (let st = (slugEffect initial)\<lparr>yardlineLabel := ''HOU 25''\<rparr>;
        net = (\<lambda>req. Rejected ''Failed to fetch'')
    in (homeTeam st, awayTeam st) = parseTeamsFromSlug (slug st) \<and>
       map (state_field ''yardline_100'') (snd (handleSubmit st net)) = [Some (JNum (Fin 75))] \<and>
       map (state_field ''yardline_100'')
         (snd (handleSubmit (st\<lparr>homeTeam := awayTeam st, awayTeam := homeTeam st\<rparr>) net)) =
         [Some (JNum (Fin 25))])"
proof -
  define st where "st = (slugEffect initial)\<lparr>yardlineLabel := ''HOU 25''\<rparr>"
  define st' where "st' = st\<lparr>homeTeam := awayTeam st, awayTeam := homeTeam st\<rparr>"
  have a: "split_on CHR ''-'' ''a-nfl-b'' = [''a'', ''nfl'', ''b''] \<and>
    toLowerCase ''nfl'' = ''nfl'' \<and>
    parseTeamsFromSlug ''a-nfl-b'' = (''NFL'', ''B'') \<and>
    fst (parseTeamsFromSlug ''a-nfl-b'') \<noteq> toUpperCase ''b''"
    by (simp add: parseTeamsFromSlug_def at_index_def upper_or_def string_defs)
  have t: "(homeTeam st, awayTeam st) = parseTeamsFromSlug (slug st)"
    by (simp add: st_def slugEffect_initial parseTeamsFromSlug_default_slug)
  have p: "parseYardlineLabel (yardlineLabel st) (homeTeam st) (awayTeam st) = Some (Fin 75)"
    by (simp add: st_def slugEffect_initial parse_HOU_25)
  have p': "parseYardlineLabel (yardlineLabel st') (homeTeam st') (awayTeam st') = Some (Fin 25)"
    by (simp add: st'_def st_def slugEffect_initial parse_HOU_25)
  have 1: "map (state_field ''yardline_100'') (snd (handleSubmit st net)) = [Some (JNum (Fin 75))]"
    for net
    by (simp add: handleSubmit_requests [OF p] state_field_payload)
  have 2: "map (state_field ''yardline_100'') (snd (handleSubmit st' net)) = [Some (JNum (Fin 25))]"
    for net
    by (simp add: handleSubmit_requests [OF p'] state_field_payload)
  from a t 1 2 show ?thesis
    unfolding Let_def st_def [symmetric] st'_def [symmetric] by (simp add: string_defs)
qed


end
